theory Spec2Isabelle
  imports Complex_Main
begin

section \<open>Values, exceptions and the token registry\<close>

text \<open>
  The two executors of the repository are
  \<^verbatim>\<open>src/model/crystal_swap/instance.py\<close> (class CrystalSwap with \<^verbatim>\<open>swap\<close>,
  \<^verbatim>\<open>approve_token\<close>, \<^verbatim>\<open>_select_swap_pair\<close>) and the older
  \<^verbatim>\<open>src/model/crystal/crystal_swap.py\<close> (class CrystalSwap with \<^verbatim>\<open>swap_mon_to_usdc\<close>,
  \<^verbatim>\<open>swap_usdc_to_mon\<close>, \<^verbatim>\<open>approve_usdc\<close>). Functions of the first keep their names;
  functions of the second that share a name carry the prefix \<open>crystal_\<close>.

  Python exceptions are values. Everything the code catches with
  \<^verbatim>\<open>except Exception\<close> is a \<open>pyexn\<close>; \<open>InsufficientBalance have name need\<close> is the
  \<^verbatim>\<open>ValueError(f"Insufficient balance. Have {balance} {name}, need {amount}")\<close> of
  \<^verbatim>\<open>swap\<close>, and \<open>Raised msg\<close> is any exception raised by the web3 library or the
  network.
\<close>

datatype pyexn =
    KeyError string
  | IndexError
  | ValueError string
  | InsufficientBalance real string real
  | Raised string

text \<open>
  A Python float is modelled by the real number it denotes, and the rounding of
  each float operation, of a decimal literal that is not a double (0.001, 0.01,
  1.1, 1.2) and of the conversion of a chain value to float by the parameter
  \<open>rnd\<close> of the environment (round to nearest double in CPython). The constants
  0.0, 0.5, 1, 100, 10**6 and 10**18 are doubles, so they are not rounded.
  Infinities and NaN are outside the model. Addresses are strings, an absent
  address (\<^verbatim>\<open>None\<close>) is \<open>None\<close>.
\<close>

record token =
  name :: string
  address :: "string option"
  decimals :: nat
  native :: bool

text \<open>
  The contract addresses of \<^verbatim>\<open>constants.py\<close>, written as the literals the source
  passes to \<^verbatim>\<open>Web3.to_checksum_address\<close> (which changes the case of letters only).
\<close>

definition ROUTER_CONTRACT :: string where
  "ROUTER_CONTRACT = ''0x64Aff7245EbdAAECAf266852139c67E4D8DBa4de''"

definition WMON_CONTRACT :: string where
  "WMON_CONTRACT = ''0x760AfE86e5de5fa0Ee542fc7B7B713e1c5425701''"

definition USDC_CONTRACT :: string where
  "USDC_CONTRACT = ''0xf817257fed379853cde0fa4f97ab987181b1e5ea''"

definition MON :: token where
  "MON = \<lparr>name = ''MON'', address = None, decimals = 18, native = True\<rparr>"

definition USDC :: token where
  "USDC = \<lparr>name = ''USDC'', address = Some USDC_CONTRACT, decimals = 6, native = False\<rparr>"

definition AVAILABLE_TOKENS :: "string \<Rightarrow> token option" where
  "AVAILABLE_TOKENS symbol =
     (if symbol = ''MON'' then Some MON else if symbol = ''USDC'' then Some USDC else None)"

definition MAX_UINT256 :: int where
  "MAX_UINT256 = 2 ^ 256 - 1"

section \<open>Transactions, receipts and the observable trace\<close>

datatype calldata =
    Approve string int
  | SwapExactETHForTokens int "string option list" string int
  | SwapExactTokensForETH int int "string option list" string int

record txn =
  tx_from :: string
  tx_to :: "string option"
  tx_value :: "int option"
  tx_data :: string
  tx_chainId :: int
  tx_type :: int
  tx_nonce :: int
  tx_gas :: "int option"
  tx_maxFeePerGas :: "int option"
  tx_maxPriorityFeePerGas :: "int option"

record receipt =
  status :: int
  gasUsed :: int

text \<open>
  The trace lists, in order, the calls an executor issues that the specification
  speaks about: the start of an attempt of a retry loop, a balance query and its
  answer, an allowance read and a quote with the value returned, a broadcast
  (\<^verbatim>\<open>send_raw_transaction\<close>) with the call the signed transaction encodes, an awaited
  receipt with that call and the status received (\<open>None\<close> when the wait raised),
  a sleep with its duration in seconds, and the Swap Intent that \<^verbatim>\<open>execute\<close> of
  crystal_swap.py computes inline and hands to its executor: the source token,
  the amount, and the balance the amount was computed from. (In instance.py the
  intent is the value \<^verbatim>\<open>_select_swap_pair\<close> returns.)
\<close>

datatype event =
    Attempt nat
  | BalanceQuery "pyexn + int"
  | AllowanceRead int
  | Quoted "int list"
  | Broadcast calldata
  | ReceiptAwaited calldata "int option"
  | Slept int
  | Intent string real real

section \<open>The effect monad: world, exception, trace\<close>

text \<open>
  A computation takes the state of the outside world (chain, network, clock,
  random source) and returns an exception or a value, the new world, and the
  events it issued. \<open>try_except\<close> is \<^verbatim>\<open>try: m except Exception as e: h e\<close>.
\<close>

type_synonym ('a, 'w) io = "'w \<Rightarrow> (pyexn + 'a) \<times> 'w \<times> event list"

definition returnE :: "'a \<Rightarrow> ('a, 'w) io" where
  "returnE x = (\<lambda>w. (Inr x, w, []))"

definition raiseE :: "pyexn \<Rightarrow> ('a, 'w) io" where
  "raiseE e = (\<lambda>w. (Inl e, w, []))"

definition liftE :: "pyexn + 'a \<Rightarrow> ('a, 'w) io" where
  "liftE r = (\<lambda>w. (r, w, []))"

definition bindE :: "('a, 'w) io \<Rightarrow> ('a \<Rightarrow> ('b, 'w) io) \<Rightarrow> ('b, 'w) io" where
  "bindE m f = (\<lambda>w.
     case m w of
       (Inl e, w1, t1) \<Rightarrow> (Inl e, w1, t1)
     | (Inr x, w1, t1) \<Rightarrow> (case f x w1 of (r, w2, t2) \<Rightarrow> (r, w2, t1 @ t2)))"

definition try_except :: "('a, 'w) io \<Rightarrow> (pyexn \<Rightarrow> ('a, 'w) io) \<Rightarrow> ('a, 'w) io" where
  "try_except m h = (\<lambda>w.
     case m w of
       (Inl e, w1, t1) \<Rightarrow> (case h e w1 of (r, w2, t2) \<Rightarrow> (r, w2, t1 @ t2))
     | (Inr x, w1, t1) \<Rightarrow> (Inr x, w1, t1))"

definition rpc :: "('w \<Rightarrow> (pyexn + 'a) \<times> 'w) \<Rightarrow> (pyexn + 'a \<Rightarrow> event list) \<Rightarrow> ('a, 'w) io" where
  "rpc f ev = (\<lambda>w. case f w of (r, w1) \<Rightarrow> (r, w1, ev r))"

definition quiet :: "pyexn + 'a \<Rightarrow> event list" where
  "quiet r = []"

definition emit :: "event list \<Rightarrow> (unit, 'w) io" where
  "emit t = (\<lambda>w. (Inr (), w, t))"

section \<open>The chain client, the libraries and the configuration\<close>

text \<open>
  The Chain Client Adapter (web3, eth_account), the clock, \<^verbatim>\<open>asyncio.sleep\<close> and
  the \<^verbatim>\<open>random\<close> module are external: they are the fields of \<open>env\<close>, over an
  arbitrary world state \<open>'w\<close>. Every network call may raise.
\<close>

record 'w env =
  rnd :: "real \<Rightarrow> real"
  to_checksum_address :: "string \<Rightarrow> pyexn + string"
  to_wei_ether :: "real \<Rightarrow> pyexn + int"
  eth_get_balance :: "string \<Rightarrow> 'w \<Rightarrow> (pyexn + int) \<times> 'w"
  balanceOf :: "string \<Rightarrow> 'w \<Rightarrow> (pyexn + int) \<times> 'w"
  allowance :: "string option \<Rightarrow> string \<Rightarrow> string \<Rightarrow> 'w \<Rightarrow> (pyexn + int) \<times> 'w"
  getAmountsOut :: "int \<Rightarrow> string option list \<Rightarrow> 'w \<Rightarrow> (pyexn + int list) \<times> 'w"
  get_block_baseFeePerGas :: "'w \<Rightarrow> (pyexn + int) \<times> 'w"
  eth_max_priority_fee :: "'w \<Rightarrow> (pyexn + int) \<times> 'w"
  get_transaction_count :: "string \<Rightarrow> 'w \<Rightarrow> (pyexn + int) \<times> 'w"
  eth_estimate_gas :: "txn \<Rightarrow> 'w \<Rightarrow> (pyexn + int) \<times> 'w"
  encode_transaction_data :: "calldata \<Rightarrow> pyexn + string"
  sign_transaction :: "txn \<Rightarrow> string \<Rightarrow> pyexn + string"
  send_raw_transaction :: "string \<Rightarrow> 'w \<Rightarrow> (pyexn + string) \<times> 'w"
  wait_for_transaction_receipt :: "string \<Rightarrow> 'w \<Rightarrow> (pyexn + receipt) \<times> 'w"
  asyncio_sleep :: "int \<Rightarrow> 'w \<Rightarrow> 'w"
  time_time :: "'w \<Rightarrow> int"
  random_bits :: "'w \<Rightarrow> nat \<times> 'w"
  random_uniform :: "real \<Rightarrow> real \<Rightarrow> 'w \<Rightarrow> real \<times> 'w"

text \<open>
  \<open>rnd\<close> is float rounding. \<open>to_checksum_address\<close>, \<open>to_wei_ether\<close>
  (\<^verbatim>\<open>to_wei(x, "ether")\<close>), \<open>encode_transaction_data\<close> and \<open>sign_transaction\<close> are
  pure library calls that may raise. \<open>get_block_baseFeePerGas\<close> is
  \<^verbatim>\<open>get_block("latest")["baseFeePerGas"]\<close>; \<open>time_time\<close> is \<^verbatim>\<open>int(time.time())\<close>;
  \<open>random_bits\<close> is the raw draw behind \<^verbatim>\<open>random.randint\<close> and \<^verbatim>\<open>random.choice\<close>. A
  transaction hash is the string of its hex digits, which is what
  \<^verbatim>\<open>tx_hash.hex()\<close> returns (hexbytes 1.x, the version web3 7 installs; the code
  reads \<^verbatim>\<open>signed_tx.raw_transaction\<close>, the spelling of that generation).
\<close>

text \<open>
  Modelled from the spec: the class \<^verbatim>\<open>Config\<close> is declared in
  \<^verbatim>\<open>src/utils/config.py\<close>, which is not among the sources. The spec describes it as
  "a configuration object exposing attempt counts, pause ranges, swap-count ranges,
  and a percent-of-balance range". A count is a \<open>nat\<close>; an integer range is the
  pair of integers the code unpacks into \<^verbatim>\<open>random.randint\<close>, and nothing orders its
  two ends; the percent range is the pair the code unpacks into
  \<^verbatim>\<open>random.uniform\<close>.
\<close>

record int_range =
  range_lo :: int
  range_hi :: int

record config =
  ATTEMPTS :: nat
  PAUSE_BETWEEN_ATTEMPTS :: int_range
  RANDOM_PAUSE_BETWEEN_ACTIONS :: int_range
  PAUSE_BETWEEN_SWAPS :: int_range
  NUMBER_OF_SWAPS :: int_range
  PERCENT_OF_BALANCE_TO_SWAP :: "real \<times> real"
  CRYSTAL_SWAP_ENABLED :: "bool option"

record account =
  account_address :: string
  private_key :: string

section \<open>Library functions\<close>

text \<open>\<^verbatim>\<open>int(x)\<close> on a float truncates toward zero.\<close>

definition py_int :: "real \<Rightarrow> int" where
  "py_int x = (if 0 \<le> x then \<lfloor>x\<rfloor> else \<lceil>x\<rceil>)"

text \<open>
  \<^verbatim>\<open>float(Web3.from_wei(n, "ether"))\<close>: web3 returns 0 for 0, raises ValueError
  outside 0 .. 2**256 - 1, and otherwise divides exactly (a Decimal); \<^verbatim>\<open>float\<close>
  rounds.
\<close>

definition from_wei_ether :: "(real \<Rightarrow> real) \<Rightarrow> int \<Rightarrow> pyexn + real" where
  "from_wei_ether r n =
     (if n = 0 then Inr 0
      else if n < 0 \<or> MAX_UINT256 < n then Inl (ValueError ''value must be between 1 and 2**256 - 1'')
      else Inr (r (real_of_int n / 10 ^ 18)))"

text \<open>\<^verbatim>\<open>Web3.to_hex(tx_hash)\<close>: a transaction hash is the string of its hex digits.\<close>

definition to_hex :: "string \<Rightarrow> string" where
  "to_hex h = ''0x'' @ h"

text \<open>
  \<^verbatim>\<open>random.randint(a, b)\<close> raises ValueError on an empty range and otherwise
  returns a + (a draw below b - a + 1).
\<close>

definition randint :: "'w env \<Rightarrow> int \<Rightarrow> int \<Rightarrow> (int, 'w) io" where
  "randint E a b =
     (if b < a then raiseE (ValueError ''empty range for randrange()'')
      else (\<lambda>w. case random_bits E w of
                  (n, w1) \<Rightarrow> (Inr (a + int (n mod nat (b - a + 1))), w1, [])))"

text \<open>\<^verbatim>\<open>random.choice([True, False])\<close>.\<close>

definition random_choice_bool :: "'w env \<Rightarrow> (bool, 'w) io" where
  "random_choice_bool E =
     (\<lambda>w. case random_bits E w of (n, w1) \<Rightarrow> (Inr ([True, False] ! (n mod 2)), w1, []))"

definition uniform :: "'w env \<Rightarrow> real \<Rightarrow> real \<Rightarrow> (real, 'w) io" where
  "uniform E a b = (\<lambda>w. case random_uniform E a b w of (x, w1) \<Rightarrow> (Inr x, w1, []))"

definition sleep :: "'w env \<Rightarrow> int \<Rightarrow> (unit, 'w) io" where
  "sleep E d = (\<lambda>w. (Inr (), asyncio_sleep E d w, [Slept d]))"

section \<open>instance.py: balance query\<close>

text \<open>
  \<^verbatim>\<open>get_token_balance(wallet_address, token)\<close>: a while loop over
  \<^verbatim>\<open>retries <= max_retries\<close> with \<^verbatim>\<open>max_retries = 15\<close>; the body returns from inside
  the \<^verbatim>\<open>try\<close>, the handler counts, sleeps one second and loops; after the loop the
  function returns the integer 0. \<open>query_balance\<close> is the body of the \<^verbatim>\<open>try\<close> after
  the address is checksummed; the assignment to \<^verbatim>\<open>wallet_address\<close> survives a later
  exception, so the loop goes on with the checksummed address. The first numeric
  argument of \<open>balance_loop\<close> is \<^verbatim>\<open>max_retries + 1 - retries\<close>, the iterations left.
\<close>

definition query_balance :: "'w env \<Rightarrow> string \<Rightarrow> token \<Rightarrow> (real, 'w) io" where
  "query_balance E wallet tok =
     (if native tok then
        bindE (rpc (eth_get_balance E wallet) (\<lambda>r. [BalanceQuery r]))
          (\<lambda>balance_wei. liftE (from_wei_ether (rnd E) balance_wei))
      else
        bindE (rpc (balanceOf E wallet) (\<lambda>r. [BalanceQuery r]))
          (\<lambda>balance_wei. returnE (rnd E (rnd E (real_of_int balance_wei) / 10 ^ decimals tok))))"

fun balance_loop :: "'w env \<Rightarrow> nat \<Rightarrow> string \<Rightarrow> token \<Rightarrow> (real, 'w) io" where
  "balance_loop E 0 wallet tok = returnE 0"
| "balance_loop E (Suc n) wallet tok =
     (case to_checksum_address E wallet of
        Inl e \<Rightarrow> bindE (sleep E 1) (\<lambda>_. balance_loop E n wallet tok)
      | Inr wallet' \<Rightarrow>
          try_except (query_balance E wallet' tok)
            (\<lambda>e. bindE (sleep E 1) (\<lambda>_. balance_loop E n wallet' tok)))"

definition get_token_balance :: "'w env \<Rightarrow> string \<Rightarrow> token \<Rightarrow> (real, 'w) io" where
  "get_token_balance E wallet tok = balance_loop E 16 wallet tok"

section \<open>instance.py: gas, allowance, approval\<close>

text \<open>\<^verbatim>\<open>get_gas_params\<close> returns maxFeePerGas and maxPriorityFeePerGas.\<close>

definition get_gas_params :: "'w env \<Rightarrow> (int \<times> int, 'w) io" where
  "get_gas_params E =
     bindE (rpc (get_block_baseFeePerGas E) quiet) (\<lambda>base_fee.
     bindE (rpc (eth_max_priority_fee E) quiet) (\<lambda>max_priority_fee.
     returnE (base_fee + max_priority_fee, max_priority_fee)))"

text \<open>\<^verbatim>\<open>estimate_gas\<close> of instance.py: the handler logs and re-raises.\<close>

definition estimate_gas :: "'w env \<Rightarrow> txn \<Rightarrow> (int, 'w) io" where
  "estimate_gas E transaction =
     try_except
       (bindE (rpc (eth_estimate_gas E transaction) quiet) (\<lambda>estimated.
        returnE (py_int (rnd E (rnd E (real_of_int estimated) * rnd E (11 / 10))))))
       (\<lambda>e. raiseE e)"

definition check_allowance :: "'w env \<Rightarrow> account \<Rightarrow> string option \<Rightarrow> string \<Rightarrow> int \<Rightarrow> (bool, 'w) io" where
  "check_allowance E acct token_address spender_address amount_wei =
     bindE (rpc (allowance E token_address (account_address acct) spender_address)
              (\<lambda>r. case r of Inl e \<Rightarrow> [] | Inr a \<Rightarrow> [AllowanceRead a]))
       (\<lambda>current_allowance. returnE (amount_wei \<le> current_allowance))"

text \<open>
  The part every transaction of both files shares: estimate the gas of the
  dictionary built so far, add gas and fees, sign, broadcast, await the receipt.
  The calldata \<open>cd\<close> is what \<open>tx_data\<close> encodes; it labels the events.
\<close>

definition sign_and_send :: "'w env \<Rightarrow> account \<Rightarrow> calldata \<Rightarrow> txn \<Rightarrow> (string \<times> receipt, 'w) io" where
  "sign_and_send E acct cd transaction =
     bindE (liftE (sign_transaction E transaction (private_key acct))) (\<lambda>raw_transaction.
     bindE (rpc (send_raw_transaction E raw_transaction) (\<lambda>r. [Broadcast cd])) (\<lambda>tx_hash.
     bindE (rpc (wait_for_transaction_receipt E tx_hash)
              (\<lambda>r. [ReceiptAwaited cd (case r of Inl e \<Rightarrow> None | Inr rc \<Rightarrow> Some (status rc))]))
       (\<lambda>rc. returnE (tx_hash, rc))))"

text \<open>
  \<^verbatim>\<open>approve_token(token, amount_wei, spender_address)\<close>: the result is the hex of
  the approval's hash, or \<^verbatim>\<open>None\<close> when the token is native, when the allowance
  suffices, and when the approval's receipt has a status other than 1.
\<close>

definition approve_token :: "'w env \<Rightarrow> account \<Rightarrow> token \<Rightarrow> int \<Rightarrow> string \<Rightarrow> (string option, 'w) io" where
  "approve_token E acct tok amount_wei spender_address =
     (if native tok then returnE None
      else
        bindE (check_allowance E acct (address tok) spender_address amount_wei) (\<lambda>enough.
        if enough then returnE None
        else
          bindE (get_gas_params E) (\<lambda>gas_params.
          bindE (liftE (encode_transaction_data E (Approve spender_address (2 ^ 256 - 1)))) (\<lambda>data.
          bindE (rpc (get_transaction_count E (account_address acct)) quiet) (\<lambda>nonce.
          bindE (estimate_gas E
                   \<lparr>tx_from = account_address acct, tx_to = address tok, tx_value = None,
                    tx_data = data, tx_chainId = 10143, tx_type = 2, tx_nonce = nonce,
                    tx_gas = None, tx_maxFeePerGas = None, tx_maxPriorityFeePerGas = None\<rparr>)
            (\<lambda>estimated_gas.
          bindE (sign_and_send E acct (Approve spender_address (2 ^ 256 - 1))
                   \<lparr>tx_from = account_address acct, tx_to = address tok, tx_value = None,
                    tx_data = data, tx_chainId = 10143, tx_type = 2, tx_nonce = nonce,
                    tx_gas = Some estimated_gas, tx_maxFeePerGas = Some (fst gas_params),
                    tx_maxPriorityFeePerGas = Some (snd gas_params)\<rparr>)
            (\<lambda>(tx_hash, rc).
          if status rc = 1 then returnE (Some (to_hex tx_hash)) else returnE None)))))))"

section \<open>instance.py: swap\<close>

record outcome =
  success :: bool
  tx_hash :: "string option"
  from_token :: "string option"
  to_token :: "string option"
  amount_in :: "real option"
  expected_out :: "real option"
  gas_used :: "int option"
  error :: "string option"

definition failure :: "string \<Rightarrow> outcome" where
  "failure msg =
     \<lparr>success = False, tx_hash = None, from_token = None, to_token = None, amount_in = None,
      expected_out = None, gas_used = None, error = Some msg\<rparr>"

definition lookup_token :: "string \<Rightarrow> (token, 'w) io" where
  "lookup_token symbol =
     (case AVAILABLE_TOKENS symbol of None \<Rightarrow> raiseE (KeyError symbol) | Some t \<Rightarrow> returnE t)"

text \<open>\<^verbatim>\<open>int(expected_out * (1 - slippage / 100))\<close>.\<close>

definition min_amount_out :: "(real \<Rightarrow> real) \<Rightarrow> real \<Rightarrow> int \<Rightarrow> int" where
  "min_amount_out r slippage expected =
     py_int (r (r (real_of_int expected) * r (1 - r (slippage / 100))))"

text \<open>
  The body of the \<^verbatim>\<open>try\<close> of one attempt of \<^verbatim>\<open>swap\<close>. \<open>Some out\<close> is
  \<^verbatim>\<open>return out\<close>; \<open>None\<close> is the \<^verbatim>\<open>continue\<close> after a receipt whose status is not 1.
\<close>

definition swap_attempt ::
  "'w env \<Rightarrow> account \<Rightarrow> string \<Rightarrow> string \<Rightarrow> real \<Rightarrow> real \<Rightarrow> (outcome option, 'w) io" where
  "swap_attempt E acct token_from token_to amount slippage =
     bindE (lookup_token token_from) (\<lambda>token_a.
     bindE (lookup_token token_to) (\<lambda>token_b.
     bindE (get_token_balance E (account_address acct) token_a) (\<lambda>balance.
     if balance < amount then raiseE (InsufficientBalance balance (name token_a) amount)
     else
       bindE (if native token_a then liftE (to_wei_ether E amount)
              else returnE (py_int (rnd E (amount * 10 ^ decimals token_a)))) (\<lambda>amount_in_wei.
       bindE (returnE (if native token_a then [Some WMON_CONTRACT, address token_b]
                       else [address token_a, Some WMON_CONTRACT])) (\<lambda>path.
       bindE (rpc (getAmountsOut E amount_in_wei path)
                (\<lambda>r. case r of Inl e \<Rightarrow> [] | Inr a \<Rightarrow> [Quoted a])) (\<lambda>amounts_out.
       bindE (if amounts_out = [] then raiseE IndexError else returnE (last amounts_out)) (\<lambda>expected.
       bindE (\<lambda>w. (Inr (time_time E w + 3600), w, [])) (\<lambda>deadline.
       bindE (if \<not> native token_a
              then bindE (approve_token E acct token_a amount_in_wei ROUTER_CONTRACT) (\<lambda>_. returnE ())
              else returnE ()) (\<lambda>_.
       bindE (get_gas_params E) (\<lambda>gas_params.
       bindE (returnE
                (if native token_a
                 then SwapExactETHForTokens (min_amount_out (rnd E) slippage expected) path
                        (account_address acct) deadline
                 else SwapExactTokensForETH amount_in_wei (min_amount_out (rnd E) slippage expected)
                        path (account_address acct) deadline)) (\<lambda>tx_func.
       bindE (liftE (encode_transaction_data E tx_func)) (\<lambda>data.
       bindE (rpc (get_transaction_count E (account_address acct)) quiet) (\<lambda>nonce.
       bindE (estimate_gas E
                \<lparr>tx_from = account_address acct, tx_to = Some ROUTER_CONTRACT,
                 tx_value = Some (if native token_a then amount_in_wei else 0),
                 tx_data = data, tx_chainId = 10143, tx_type = 2, tx_nonce = nonce,
                 tx_gas = None, tx_maxFeePerGas = None, tx_maxPriorityFeePerGas = None\<rparr>)
         (\<lambda>estimated_gas.
       bindE (sign_and_send E acct tx_func
                \<lparr>tx_from = account_address acct, tx_to = Some ROUTER_CONTRACT,
                 tx_value = Some (if native token_a then amount_in_wei else 0),
                 tx_data = data, tx_chainId = 10143, tx_type = 2, tx_nonce = nonce,
                 tx_gas = Some estimated_gas, tx_maxFeePerGas = Some (fst gas_params),
                 tx_maxPriorityFeePerGas = Some (snd gas_params)\<rparr>)
         (\<lambda>(h, rc).
       if status rc = 1 then
         returnE (Some
           \<lparr>success = True, tx_hash = Some (to_hex h), from_token = Some (name token_a),
            to_token = Some (name token_b), amount_in = Some amount,
            expected_out = Some (rnd E (real_of_int expected / 10 ^ decimals token_b)),
            gas_used = Some (gasUsed rc), error = None\<rparr>)
       else returnE None)))))))))))))))"

text \<open>
  \<^verbatim>\<open>for retry in range(ATTEMPTS)\<close>: the first numeric argument counts the attempts
  left, the second is \<^verbatim>\<open>retry\<close>. An exception raised by the handler itself is not
  caught.
\<close>

fun swap_loop ::
  "'w env \<Rightarrow> config \<Rightarrow> account \<Rightarrow> string \<Rightarrow> string \<Rightarrow> real \<Rightarrow> real \<Rightarrow> nat \<Rightarrow> nat \<Rightarrow> (outcome, 'w) io" where
  "swap_loop E cfg acct token_from token_to amount slippage 0 retry =
     returnE (failure ''Max retry attempts reached'')"
| "swap_loop E cfg acct token_from token_to amount slippage (Suc n) retry =
     bindE (emit [Attempt retry]) (\<lambda>_.
     bindE (try_except (swap_attempt E acct token_from token_to amount slippage)
              (\<lambda>e. bindE (if int retry < int (ATTEMPTS cfg) - 1
                           then bindE (randint E (range_lo (PAUSE_BETWEEN_ATTEMPTS cfg))
                                         (range_hi (PAUSE_BETWEEN_ATTEMPTS cfg))) (sleep E)
                           else returnE ())
                     (\<lambda>_. returnE None)))
       (\<lambda>r. case r of
               Some out \<Rightarrow> returnE out
             | None \<Rightarrow> swap_loop E cfg acct token_from token_to amount slippage n (Suc retry)))"

definition swap ::
  "'w env \<Rightarrow> config \<Rightarrow> account \<Rightarrow> string \<Rightarrow> string \<Rightarrow> real \<Rightarrow> real \<Rightarrow> (outcome, 'w) io" where
  "swap E cfg acct token_from token_to amount slippage =
     swap_loop E cfg acct token_from token_to amount slippage (ATTEMPTS cfg) 0"

section \<open>instance.py: the session driver\<close>

text \<open>
  \<^verbatim>\<open>_select_swap_pair(token_balances)\<close>. \<^verbatim>\<open>random.choice\<close> is evaluated before the
  balance test of the \<^verbatim>\<open>and\<close>.
\<close>

text \<open>
  The amount both session drivers compute: \<^verbatim>\<open>balance * (percent / 100)\<close>, two float
  operations.
\<close>

definition percent_of_balance :: "(real \<Rightarrow> real) \<Rightarrow> real \<Rightarrow> real \<Rightarrow> real" where
  "percent_of_balance r balance percent = r (balance * r (percent / 100))"

definition dict_get :: "(string \<Rightarrow> real option) \<Rightarrow> string \<Rightarrow> (real, 'w) io" where
  "dict_get d k = (case d k of None \<Rightarrow> raiseE (KeyError k) | Some v \<Rightarrow> returnE v)"

definition select_swap_pair ::
  "'w env \<Rightarrow> config \<Rightarrow> (string \<Rightarrow> real option) \<Rightarrow> (string option \<times> string option \<times> real, 'w) io" where
  "select_swap_pair E cfg token_balances =
     bindE (dict_get token_balances ''MON'') (\<lambda>mon_balance.
     bindE (dict_get token_balances ''USDC'') (\<lambda>usdc_balance.
     if mon_balance < rnd E (1 / 1000) \<and> usdc_balance < rnd E (1 / 100) then returnE (None, None, 0)
     else
       bindE (random_choice_bool E) (\<lambda>c.
       bindE (returnE (c \<and> rnd E (1 / 1000) \<le> mon_balance)) (\<lambda>swap_mon.
       bindE (uniform E (fst (PERCENT_OF_BALANCE_TO_SWAP cfg)) (snd (PERCENT_OF_BALANCE_TO_SWAP cfg)))
         (\<lambda>percent.
       if swap_mon then
         (if percent_of_balance (rnd E) mon_balance percent < rnd E (1 / 1000) then returnE (None, None, 0)
          else returnE (Some ''MON'', Some ''USDC'', percent_of_balance (rnd E) mon_balance percent))
       else
         (if percent_of_balance (rnd E) usdc_balance percent < rnd E (1 / 100) then returnE (None, None, 0)
          else returnE (Some ''USDC'', Some ''MON'', percent_of_balance (rnd E) usdc_balance percent)))))))"

definition refresh_balances ::
  "'w env \<Rightarrow> account \<Rightarrow> (string \<Rightarrow> real option) \<Rightarrow> (string \<Rightarrow> real option, 'w) io" where
  "refresh_balances E acct token_balances =
     bindE (get_token_balance E (account_address acct) MON) (\<lambda>b1.
     bindE (get_token_balance E (account_address acct) USDC) (\<lambda>b2.
     returnE (token_balances(''MON'' \<mapsto> b1, ''USDC'' \<mapsto> b2))))"

text \<open>
  \<^verbatim>\<open>for swap_num in range(1, num_swaps + 1)\<close> of \<^verbatim>\<open>execute\<close>: the first numeric
  argument counts the iterations left. Both \<^verbatim>\<open>continue\<close> statements go to the next
  iteration without the pause. \<^verbatim>\<open>swap\<close> is called with its default slippage 0.5.
\<close>

fun execute_loop ::
  "'w env \<Rightarrow> config \<Rightarrow> account \<Rightarrow> nat \<Rightarrow> int \<Rightarrow> int \<Rightarrow> (string \<Rightarrow> real option) \<Rightarrow> (unit, 'w) io" where
  "execute_loop E cfg acct 0 swap_num num_swaps token_balances = returnE ()"
| "execute_loop E cfg acct (Suc n) swap_num num_swaps token_balances =
     bindE (refresh_balances E acct token_balances) (\<lambda>balances.
     bindE (select_swap_pair E cfg balances) (\<lambda>(token_from, token_to, amount).
     case (token_from, token_to) of
       (Some tf, Some tt) \<Rightarrow>
         if tf = [] \<or> tt = [] then execute_loop E cfg acct n (swap_num + 1) num_swaps balances
         else if amount \<le> rnd E (1 / 100) then execute_loop E cfg acct n (swap_num + 1) num_swaps balances
         else
           bindE (swap E cfg acct tf tt amount (1 / 2)) (\<lambda>swap_result.
           bindE (if swap_num < num_swaps
                  then bindE (randint E (range_lo (RANDOM_PAUSE_BETWEEN_ACTIONS cfg))
                                (range_hi (RANDOM_PAUSE_BETWEEN_ACTIONS cfg))) (sleep E)
                  else returnE ()) (\<lambda>_.
           execute_loop E cfg acct n (swap_num + 1) num_swaps balances))
     | _ \<Rightarrow> execute_loop E cfg acct n (swap_num + 1) num_swaps balances))"

definition execute :: "'w env \<Rightarrow> config \<Rightarrow> account \<Rightarrow> (unit, 'w) io" where
  "execute E cfg acct =
     (case CRYSTAL_SWAP_ENABLED cfg of
        None \<Rightarrow> returnE ()
      | Some enabled \<Rightarrow>
          if \<not> enabled then returnE ()
          else
            bindE (refresh_balances E acct Map.empty) (\<lambda>token_balances.
            bindE (randint E (range_lo (NUMBER_OF_SWAPS cfg)) (range_hi (NUMBER_OF_SWAPS cfg)))
              (\<lambda>num_swaps.
            execute_loop E cfg acct (nat num_swaps) 1 num_swaps token_balances)))"

section \<open>crystal_swap.py: the older executor\<close>

text \<open>
  \<^verbatim>\<open>estimate_gas\<close> of crystal_swap.py swallows the exception and returns 200000.
\<close>

definition crystal_estimate_gas :: "'w env \<Rightarrow> txn \<Rightarrow> (int, 'w) io" where
  "crystal_estimate_gas E transaction =
     try_except
       (bindE (rpc (eth_estimate_gas E transaction) quiet) (\<lambda>estimated.
        returnE (py_int (rnd E (rnd E (real_of_int estimated) * rnd E (12 / 10))))))
       (\<lambda>e. returnE 200000)"

text \<open>\<^verbatim>\<open>get_token_balance(token)\<close> of crystal_swap.py: one try, 0.0 on any exception.\<close>

definition crystal_get_token_balance :: "'w env \<Rightarrow> account \<Rightarrow> token \<Rightarrow> (real, 'w) io" where
  "crystal_get_token_balance E acct tok =
     try_except (query_balance E (account_address acct) tok) (\<lambda>e. returnE 0)"

text \<open>
  \<^verbatim>\<open>approve_usdc(amount_wei)\<close>. Here the dictionary handed to \<^verbatim>\<open>estimate_gas\<close>
  already holds the fee fields.
\<close>

definition approve_usdc :: "'w env \<Rightarrow> account \<Rightarrow> int \<Rightarrow> (bool, 'w) io" where
  "approve_usdc E acct amount_wei =
     try_except
       (bindE (rpc (allowance E (Some USDC_CONTRACT) (account_address acct) ROUTER_CONTRACT)
                 (\<lambda>r. case r of Inl e \<Rightarrow> [] | Inr a \<Rightarrow> [AllowanceRead a])) (\<lambda>current.
        if amount_wei \<le> current then returnE True
        else
          bindE (liftE (encode_transaction_data E (Approve ROUTER_CONTRACT (2 ^ 256 - 1)))) (\<lambda>data.
          bindE (rpc (get_transaction_count E (account_address acct)) quiet) (\<lambda>nonce.
          bindE (get_gas_params E) (\<lambda>gas_params.
          bindE (crystal_estimate_gas E
                   \<lparr>tx_from = account_address acct, tx_to = Some USDC_CONTRACT, tx_value = None,
                    tx_data = data, tx_chainId = 10143, tx_type = 2, tx_nonce = nonce,
                    tx_gas = None, tx_maxFeePerGas = Some (fst gas_params),
                    tx_maxPriorityFeePerGas = Some (snd gas_params)\<rparr>) (\<lambda>gas.
          bindE (sign_and_send E acct (Approve ROUTER_CONTRACT (2 ^ 256 - 1))
                   \<lparr>tx_from = account_address acct, tx_to = Some USDC_CONTRACT, tx_value = None,
                    tx_data = data, tx_chainId = 10143, tx_type = 2, tx_nonce = nonce,
                    tx_gas = Some gas, tx_maxFeePerGas = Some (fst gas_params),
                    tx_maxPriorityFeePerGas = Some (snd gas_params)\<rparr>)
            (\<lambda>(h, rc). if status rc = 1 then returnE True else returnE False)))))))
       (\<lambda>e. returnE False)"

text \<open>
  The body of the \<^verbatim>\<open>try\<close> of \<^verbatim>\<open>swap_mon_to_usdc\<close> and of \<^verbatim>\<open>swap_usdc_to_mon\<close>
  after the approval: build, estimate, sign, broadcast, await. Both pass 0 as
  amountOutMin. Every path of the body returns an outcome.
\<close>

definition crystal_send ::
  "'w env \<Rightarrow> account \<Rightarrow> calldata \<Rightarrow> int option \<Rightarrow> string \<Rightarrow> string \<Rightarrow> real \<Rightarrow> (outcome, 'w) io" where
  "crystal_send E acct tx_func val from_name to_name amount =
     bindE (liftE (encode_transaction_data E tx_func)) (\<lambda>data.
     bindE (rpc (get_transaction_count E (account_address acct)) quiet) (\<lambda>nonce.
     bindE (get_gas_params E) (\<lambda>gas_params.
     bindE (crystal_estimate_gas E
              \<lparr>tx_from = account_address acct, tx_to = Some ROUTER_CONTRACT, tx_value = val,
               tx_data = data, tx_chainId = 10143, tx_type = 2, tx_nonce = nonce,
               tx_gas = None, tx_maxFeePerGas = Some (fst gas_params),
               tx_maxPriorityFeePerGas = Some (snd gas_params)\<rparr>) (\<lambda>gas.
     bindE (sign_and_send E acct tx_func
              \<lparr>tx_from = account_address acct, tx_to = Some ROUTER_CONTRACT, tx_value = val,
               tx_data = data, tx_chainId = 10143, tx_type = 2, tx_nonce = nonce,
               tx_gas = Some gas, tx_maxFeePerGas = Some (fst gas_params),
               tx_maxPriorityFeePerGas = Some (snd gas_params)\<rparr>)
       (\<lambda>(h, rc).
     if status rc = 1 then
       returnE \<lparr>success = True, tx_hash = Some h, from_token = Some from_name,
                to_token = Some to_name, amount_in = Some amount, expected_out = None,
                gas_used = None, error = None\<rparr>
     else returnE (failure ''Transaction reverted''))))))"

definition mon_to_usdc_attempt :: "'w env \<Rightarrow> account \<Rightarrow> real \<Rightarrow> int \<Rightarrow> int \<Rightarrow> (outcome, 'w) io" where
  "mon_to_usdc_attempt E acct amount amount_wei deadline =
     crystal_send E acct
       (SwapExactETHForTokens 0 [Some WMON_CONTRACT, Some USDC_CONTRACT] (account_address acct) deadline)
       (Some amount_wei) ''MON'' ''USDC'' amount"

definition usdc_to_mon_attempt :: "'w env \<Rightarrow> account \<Rightarrow> real \<Rightarrow> int \<Rightarrow> int \<Rightarrow> (outcome, 'w) io" where
  "usdc_to_mon_attempt E acct amount amount_wei deadline =
     bindE (approve_usdc E acct amount_wei) (\<lambda>approved.
     if \<not> approved then returnE (failure ''Approval failed'')
     else
       crystal_send E acct
         (SwapExactTokensForETH amount_wei 0 [Some USDC_CONTRACT, Some WMON_CONTRACT]
            (account_address acct) deadline)
         None ''USDC'' ''MON'' amount)"

text \<open>
  \<^verbatim>\<open>for attempt in range(ATTEMPTS)\<close> of the two functions: the body returns on
  every path that does not raise; the handler sleeps unless the attempt is the
  last one.
\<close>

fun crystal_loop :: "'w env \<Rightarrow> config \<Rightarrow> (outcome, 'w) io \<Rightarrow> nat \<Rightarrow> nat \<Rightarrow> (outcome, 'w) io" where
  "crystal_loop E cfg body 0 attempt = returnE (failure ''All attempts failed'')"
| "crystal_loop E cfg body (Suc n) attempt =
     bindE (emit [Attempt attempt]) (\<lambda>_.
     bindE (try_except (bindE body (\<lambda>out. returnE (Some out)))
              (\<lambda>e. bindE (if int attempt < int (ATTEMPTS cfg) - 1
                           then bindE (randint E (range_lo (PAUSE_BETWEEN_ATTEMPTS cfg))
                                         (range_hi (PAUSE_BETWEEN_ATTEMPTS cfg))) (sleep E)
                           else returnE ())
                     (\<lambda>_. returnE None)))
       (\<lambda>r. case r of
               Some out \<Rightarrow> returnE out
             | None \<Rightarrow> crystal_loop E cfg body n (Suc attempt)))"

definition swap_mon_to_usdc :: "'w env \<Rightarrow> config \<Rightarrow> account \<Rightarrow> real \<Rightarrow> (outcome, 'w) io" where
  "swap_mon_to_usdc E cfg acct amount =
     bindE (liftE (to_wei_ether E amount)) (\<lambda>amount_wei.
     bindE (\<lambda>w. (Inr (time_time E w + 600), w, [])) (\<lambda>deadline.
     crystal_loop E cfg (mon_to_usdc_attempt E acct amount amount_wei deadline) (ATTEMPTS cfg) 0))"

definition swap_usdc_to_mon :: "'w env \<Rightarrow> config \<Rightarrow> account \<Rightarrow> real \<Rightarrow> (outcome, 'w) io" where
  "swap_usdc_to_mon E cfg acct amount =
     bindE (returnE (py_int (rnd E (amount * 10 ^ 6)))) (\<lambda>amount_wei.
     bindE (\<lambda>w. (Inr (time_time E w + 600), w, [])) (\<lambda>deadline.
     crystal_loop E cfg (usdc_to_mon_attempt E acct amount amount_wei deadline) (ATTEMPTS cfg) 0))"

text \<open>
  \<^verbatim>\<open>execute\<close> of crystal_swap.py. The registry entries it reads
  (\<^verbatim>\<open>ALL_TOKENS["MON"]\<close>, \<^verbatim>\<open>ALL_TOKENS["USDC"]\<close> of \<^verbatim>\<open>src/utils/constants.py\<close>) are taken
  to be the entries of the registry above. \<^verbatim>\<open>break\<close> leaves the loop. The
  \<open>Intent\<close> event records the arguments with which the swap function is called.
\<close>

fun crystal_execute_loop ::
  "'w env \<Rightarrow> config \<Rightarrow> account \<Rightarrow> nat \<Rightarrow> int \<Rightarrow> int \<Rightarrow> (unit, 'w) io" where
  "crystal_execute_loop E cfg acct 0 swap_num num_swaps = returnE ()"
| "crystal_execute_loop E cfg acct (Suc n) swap_num num_swaps =
     bindE (crystal_get_token_balance E acct MON) (\<lambda>mon_balance.
     bindE (crystal_get_token_balance E acct USDC) (\<lambda>usdc_balance.
     if mon_balance < rnd E (1 / 1000) \<and> usdc_balance < rnd E (1 / 100) then returnE ()
     else
       bindE (random_choice_bool E) (\<lambda>c.
       bindE (returnE (c \<and> rnd E (1 / 1000) \<le> mon_balance)) (\<lambda>swap_mon.
       bindE (uniform E (fst (PERCENT_OF_BALANCE_TO_SWAP cfg)) (snd (PERCENT_OF_BALANCE_TO_SWAP cfg)))
         (\<lambda>percent.
       bindE (if swap_mon then
                bindE (returnE (percent_of_balance (rnd E) mon_balance percent)) (\<lambda>amount.
                if amount < rnd E (1 / 1000) then returnE None
                else bindE (emit [Intent ''MON'' amount mon_balance]) (\<lambda>_.
                     bindE (swap_mon_to_usdc E cfg acct amount) (\<lambda>result. returnE (Some result))))
              else
                bindE (returnE (percent_of_balance (rnd E) usdc_balance percent)) (\<lambda>amount.
                if amount < rnd E (1 / 100) then returnE None
                else bindE (emit [Intent ''USDC'' amount usdc_balance]) (\<lambda>_.
                     bindE (swap_usdc_to_mon E cfg acct amount) (\<lambda>result. returnE (Some result)))))
         (\<lambda>r.
       case r of
         None \<Rightarrow> crystal_execute_loop E cfg acct n (swap_num + 1) num_swaps
       | Some result \<Rightarrow>
           bindE (if swap_num < num_swaps
                  then bindE (randint E (range_lo (PAUSE_BETWEEN_SWAPS cfg))
                                (range_hi (PAUSE_BETWEEN_SWAPS cfg))) (sleep E)
                  else returnE ()) (\<lambda>_.
           crystal_execute_loop E cfg acct n (swap_num + 1) num_swaps)))))))"


section \<open>Trace observations\<close>

fun broadcasts :: "event list \<Rightarrow> calldata list" where
  "broadcasts [] = []"
| "broadcasts (Broadcast cd # t) = cd # broadcasts t"
| "broadcasts (ev # t) = broadcasts t"

fun attempts :: "event list \<Rightarrow> nat list" where
  "attempts [] = []"
| "attempts (Attempt k # t) = k # attempts t"
| "attempts (ev # t) = attempts t"

fun sleeps :: "event list \<Rightarrow> int list" where
  "sleeps [] = []"
| "sleeps (Slept d # t) = d # sleeps t"
| "sleeps (ev # t) = sleeps t"

fun is_swap_call :: "calldata \<Rightarrow> bool" where
  "is_swap_call (Approve spender amt) = False"
| "is_swap_call (SwapExactETHForTokens m path to_addr dl) = True"
| "is_swap_call (SwapExactTokensForETH a m path to_addr dl) = True"

text \<open>The statuses of the awaited receipts of swap transactions, in order.\<close>

fun swap_receipts :: "event list \<Rightarrow> int list" where
  "swap_receipts [] = []"
| "swap_receipts (ReceiptAwaited cd (Some st) # t) =
     (if is_swap_call cd then st # swap_receipts t else swap_receipts t)"
| "swap_receipts (ev # t) = swap_receipts t"

text \<open>
  The proof device for traces and results: \<open>emits P m\<close> says every event \<open>m\<close>
  issues satisfies \<open>P\<close>, from any world; \<open>never_raises m\<close> says it returns a
  value from any world; \<open>post Q m\<close> relates the result of \<open>m\<close> and the events it
  issued.
\<close>

definition emits :: "(event \<Rightarrow> bool) \<Rightarrow> ('a, 'w) io \<Rightarrow> bool" where
  "emits P m = (\<forall>w. list_all P (snd (snd (m w))))"

definition never_raises :: "('a, 'w) io \<Rightarrow> bool" where
  "never_raises m = (\<forall>w. \<exists>x. fst (m w) = Inr x)"

definition post :: "(pyexn + 'a \<Rightarrow> event list \<Rightarrow> bool) \<Rightarrow> ('a, 'w) io \<Rightarrow> bool" where
  "post Q m = (\<forall>w. case m w of (r, w', t) \<Rightarrow> Q r t)"

text \<open>
  Events that are neither the start of an attempt, nor a quote, nor the broadcast
  or the receipt of a swap transaction.
\<close>

fun aux_event :: "event \<Rightarrow> bool" where
  "aux_event (Attempt k) = False"
| "aux_event (Quoted a) = False"
| "aux_event (Broadcast cd) = (\<not> is_swap_call cd)"
| "aux_event (ReceiptAwaited cd st) = (\<not> is_swap_call cd)"
| "aux_event (BalanceQuery r) = True"
| "aux_event (AllowanceRead a) = True"
| "aux_event (Slept d) = True"
| "aux_event (Intent symbol amount balance) = True"

fun amount_out_min :: "calldata \<Rightarrow> int option" where
  "amount_out_min (Approve spender amt) = None"
| "amount_out_min (SwapExactETHForTokens m path to_addr dl) = Some m"
| "amount_out_min (SwapExactTokensForETH a m path to_addr dl) = Some m"

text \<open>
  \<open>slippage_protected r sl q t\<close>: every swap broadcast of the trace \<open>t\<close> carries as
  amountOutMin the last element of the latest quote before it, reduced by the
  slippage \<open>sl\<close>; \<open>q\<close> is the latest quote before \<open>t\<close>, if any.
\<close>

fun slippage_protected :: "(real \<Rightarrow> real) \<Rightarrow> real \<Rightarrow> int list option \<Rightarrow> event list \<Rightarrow> bool" where
  "slippage_protected r sl q [] = True"
| "slippage_protected r sl q (Quoted a # t) = slippage_protected r sl (Some a) t"
| "slippage_protected r sl q (Broadcast cd # t) =
     ((case amount_out_min cd of
         None \<Rightarrow> True
       | Some m \<Rightarrow> (case q of None \<Rightarrow> False
                             | Some a \<Rightarrow> a \<noteq> [] \<and> m = min_amount_out r sl (last a)))
      \<and> slippage_protected r sl q t)"
| "slippage_protected r sl q (ev # t) = slippage_protected r sl q t"

text \<open>
  \<open>unquoted_zero\<close>: the event is no quote, and if it is a broadcast of a swap,
  its amountOutMin is 0.
\<close>

fun unquoted_zero :: "event \<Rightarrow> bool" where
  "unquoted_zero (Quoted a) = False"
| "unquoted_zero (Broadcast cd) = (case amount_out_min cd of None \<Rightarrow> True | Some m \<Rightarrow> m = 0)"
| "unquoted_zero ev = True"

text \<open>
  \<open>approval_event sp\<close>: an allowance read, or the broadcast or receipt of an
  approval that grants \<open>sp\<close> the allowance 2**256 - 1. \<open>router_approvals\<close>: a
  broadcast is a swap call or such an approval for the router.
\<close>

fun approval_event :: "string \<Rightarrow> event \<Rightarrow> bool" where
  "approval_event sp (AllowanceRead a) = True"
| "approval_event sp (Broadcast cd) = (cd = Approve sp MAX_UINT256)"
| "approval_event sp (ReceiptAwaited cd st) = (cd = Approve sp MAX_UINT256)"
| "approval_event sp ev = False"

fun router_approvals :: "event \<Rightarrow> bool" where
  "router_approvals (Broadcast cd) = (is_swap_call cd \<or> cd = Approve ROUTER_CONTRACT MAX_UINT256)"
| "router_approvals ev = True"

text \<open>
  \<open>approved_before_swap strict amt ok t\<close>: along \<open>t\<close>, every broadcast of a swap call
  comes, within its attempt, after an allowance read of at least \<open>amt\<close> or after
  the awaited receipt of an approval, with status 1 when \<open>strict\<close>, with any
  status otherwise. \<open>ok\<close> is whether that holds where \<open>t\<close> starts.
\<close>

fun approved_before_swap :: "bool \<Rightarrow> int \<Rightarrow> bool \<Rightarrow> event list \<Rightarrow> bool" where
  "approved_before_swap strict amt ok [] = True"
| "approved_before_swap strict amt ok (AllowanceRead a # t) = approved_before_swap strict amt (amt \<le> a) t"
| "approved_before_swap strict amt ok (ReceiptAwaited cd st # t) =
     (if is_swap_call cd then approved_before_swap strict amt ok t
      else approved_before_swap strict amt (if strict then st = Some 1 else st \<noteq> None) t)"
| "approved_before_swap strict amt ok (Broadcast cd # t) =
     ((if is_swap_call cd then ok else True) \<and> approved_before_swap strict amt ok t)"
| "approved_before_swap strict amt ok (Attempt k # t) = approved_before_swap strict amt False t"
| "approved_before_swap strict amt ok (ev # t) = approved_before_swap strict amt ok t"

text \<open>What one attempt of the older executor leaves: its result and its swap receipts.\<close>

definition crystal_attempt_post :: "pyexn + outcome \<Rightarrow> event list \<Rightarrow> bool" where
  "crystal_attempt_post res t =
     (attempts t = [] \<and> length (swap_receipts t) \<le> 1 \<and>
      (case res of
         Inl e \<Rightarrow> swap_receipts t = []
       | Inr out \<Rightarrow> (success out \<longleftrightarrow> swap_receipts t = [1]) \<and>
                    (success out \<longrightarrow> (\<exists>h. tx_hash out = Some h \<and> h \<noteq> [])) \<and>
                    (\<not> success out \<longrightarrow> (\<exists>msg. error out = Some msg))))"

text \<open>
  What a call of \<^verbatim>\<open>swap_mon_to_usdc\<close> or \<^verbatim>\<open>swap_usdc_to_mon\<close> leaves: an exception
  only when no swap receipt came back with a status; otherwise an Outcome that is
  a success exactly when the one awaited swap receipt has status 1, and then
  carries a non-empty transaction identifier.
\<close>

definition crystal_result :: "pyexn + outcome \<Rightarrow> event list \<Rightarrow> bool" where
  "crystal_result res t =
     (case res of
        Inl e \<Rightarrow> swap_receipts t = []
      | Inr out \<Rightarrow> length (swap_receipts t) \<le> 1 \<and> (success out \<longleftrightarrow> swap_receipts t = [1]) \<and>
                   (success out \<longrightarrow> (\<exists>h. tx_hash out = Some h \<and> h \<noteq> [])) \<and>
                   (\<not> success out \<longrightarrow> (\<exists>msg. error out = Some msg)))"

text \<open>
  \<open>hashes_nonempty E\<close>: a transaction hash that \<^verbatim>\<open>send_raw_transaction\<close> returns has
  at least one hex digit (a hash is 32 bytes).
\<close>

definition hashes_nonempty :: "'w env \<Rightarrow> bool" where
  "hashes_nonempty E = (\<forall>raw w h. fst (send_raw_transaction E raw w) = Inr h \<longrightarrow> h \<noteq> [])"

text \<open>
  \<open>balance_value E tok b\<close>: the float that \<^verbatim>\<open>get_token_balance\<close> makes of the answer
  \<open>b\<close> (in base units) of a balance query for \<open>tok\<close>, as \<open>query_balance\<close> computes it.
  \<open>short_answer E tok amount ev\<close>: if the event is an answered balance query, its
  value is below \<open>amount\<close>.
\<close>

definition balance_value :: "'w env \<Rightarrow> token \<Rightarrow> int \<Rightarrow> pyexn + real" where
  "balance_value E tok b =
     (if native tok then from_wei_ether (rnd E) b
      else Inr (rnd E (rnd E (real_of_int b) / 10 ^ decimals tok)))"

fun short_answer :: "'w env \<Rightarrow> token \<Rightarrow> real \<Rightarrow> event \<Rightarrow> bool" where
  "short_answer E tok amount (BalanceQuery (Inr b)) =
     (case balance_value E tok b of Inl e \<Rightarrow> True | Inr x \<Rightarrow> x < amount)"
| "short_answer E tok amount ev = True"

text \<open>\<open>no_balance_query\<close>: the event is not a balance query.\<close>

fun no_balance_query :: "event \<Rightarrow> bool" where
  "no_balance_query (BalanceQuery r) = False"
| "no_balance_query ev = True"


section \<open>A scripted world for concrete runs\<close>

text \<open>
  A world whose answers are queued: balances (for both kinds of balance query),
  allowances, quoted outputs, receipt statuses, raw random draws and uniform
  draws. A query on an empty queue raises, as an unreachable endpoint does; the
  random source answers 0 and the lower bound; a queued uniform draw is brought
  into the range asked for. Fees, nonce, gas estimate and the
  hash are constants; rounding is the identity.
\<close>

record script =
  q_balance :: "int list"
  q_allowance :: "int list"
  q_quote :: "int list"
  q_status :: "int list"
  q_bits :: "nat list"
  q_uniform :: "real list"

definition scripted :: "script env" where
  "scripted =
     \<lparr>rnd = (\<lambda>x. x),
      to_checksum_address = Inr,
      to_wei_ether = (\<lambda>x. if x < 0 then Inl (ValueError ''negative'') else Inr \<lfloor>x * 10 ^ 18\<rfloor>),
      eth_get_balance = (\<lambda>a w. case q_balance w of
                           [] \<Rightarrow> (Inl (Raised ''unreachable''), w)
                         | b # bs \<Rightarrow> (Inr b, w\<lparr>q_balance := bs\<rparr>)),
      balanceOf = (\<lambda>a w. case q_balance w of
                           [] \<Rightarrow> (Inl (Raised ''unreachable''), w)
                         | b # bs \<Rightarrow> (Inr b, w\<lparr>q_balance := bs\<rparr>)),
      allowance = (\<lambda>t ow sp w. case q_allowance w of
                           [] \<Rightarrow> (Inl (Raised ''unreachable''), w)
                         | b # bs \<Rightarrow> (Inr b, w\<lparr>q_allowance := bs\<rparr>)),
      getAmountsOut = (\<lambda>a path w. case q_quote w of
                           [] \<Rightarrow> (Inl (Raised ''unreachable''), w)
                         | b # bs \<Rightarrow> (Inr [a, b], w\<lparr>q_quote := bs\<rparr>)),
      get_block_baseFeePerGas = (\<lambda>w. (Inr 50, w)),
      eth_max_priority_fee = (\<lambda>w. (Inr 2, w)),
      get_transaction_count = (\<lambda>a w. (Inr 7, w)),
      eth_estimate_gas = (\<lambda>t w. (Inr 100000, w)),
      encode_transaction_data = (\<lambda>cd. Inr ''data''),
      sign_transaction = (\<lambda>t k. Inr ''raw''),
      send_raw_transaction = (\<lambda>r w. (Inr ''ab12'', w)),
      wait_for_transaction_receipt = (\<lambda>h w. case q_status w of
                           [] \<Rightarrow> (Inl (Raised ''unreachable''), w)
                         | b # bs \<Rightarrow> (Inr \<lparr>status = b, gasUsed = 90000\<rparr>, w\<lparr>q_status := bs\<rparr>)),
      asyncio_sleep = (\<lambda>d w. w),
      time_time = (\<lambda>w. 1700000000),
      random_bits = (\<lambda>w. case q_bits w of [] \<Rightarrow> (0, w) | b # bs \<Rightarrow> (b, w\<lparr>q_bits := bs\<rparr>)),
      random_uniform = (\<lambda>a b w. case q_uniform w of
                           [] \<Rightarrow> (a, w)
                         | x # xs \<Rightarrow> (max a (min b x), w\<lparr>q_uniform := xs\<rparr>))\<rparr>"

definition alice :: account where
  "alice = \<lparr>account_address = ''0xA11ce'', private_key = ''key''\<rparr>"

definition settings :: "nat \<Rightarrow> config" where
  "settings n =
     \<lparr>ATTEMPTS = n,
      PAUSE_BETWEEN_ATTEMPTS = \<lparr>range_lo = 3, range_hi = 10\<rparr>,
      RANDOM_PAUSE_BETWEEN_ACTIONS = \<lparr>range_lo = 5, range_hi = 10\<rparr>,
      PAUSE_BETWEEN_SWAPS = \<lparr>range_lo = 5, range_hi = 10\<rparr>,
      NUMBER_OF_SWAPS = \<lparr>range_lo = 2, range_hi = 2\<rparr>,
      PERCENT_OF_BALANCE_TO_SWAP = (10, 50),
      CRYSTAL_SWAP_ENABLED = Some True\<rparr>"

text \<open>\<open>reversed_pause n\<close>: the same settings with the pause pair written as (10, 3).\<close>

definition reversed_pause :: "nat \<Rightarrow> config" where
  "reversed_pause n = (settings n)\<lparr>PAUSE_BETWEEN_ATTEMPTS := \<lparr>range_lo = 10, range_hi = 3\<rparr>\<rparr>"

definition world0 :: script where
  "world0 = \<lparr>q_balance = [], q_allowance = [], q_quote = [], q_status = [], q_bits = [], q_uniform = []\<rparr>"

text \<open>
  \<open>steady b\<close> is the scripted world whose two balance queries always answer
  \<open>b\<close> base units.
\<close>

definition steady :: "int \<Rightarrow> script env" where
  "steady b = scripted\<lparr>eth_get_balance := (\<lambda>a w. (Inr b, w)), balanceOf := (\<lambda>a w. (Inr b, w))\<rparr>"

text \<open>
  Concrete values of the runs below: the world \<open>rich bs qs ss\<close> with queued
  balances, quotes and receipt statuses; the call and the Outcome of a MON to USDC
  swap of 0.5 MON quoted at 1000 with slippage 0.5.
\<close>

definition mon_call :: calldata where
  "mon_call = SwapExactETHForTokens 995 [Some WMON_CONTRACT, Some USDC_CONTRACT] ''0xA11ce'' 1700003600"

definition mon_success :: outcome where
  "mon_success =
     \<lparr>success = True, tx_hash = Some ''0xab12'', from_token = Some ''MON'', to_token = Some ''USDC'',
      amount_in = Some (1 / 2), expected_out = Some (1 / 1000), gas_used = Some 90000, error = None\<rparr>"

definition rich :: "int list \<Rightarrow> int list \<Rightarrow> int list \<Rightarrow> script" where
  "rich bs qs ss =
     \<lparr>q_balance = bs, q_allowance = [], q_quote = qs, q_status = ss, q_bits = [], q_uniform = []\<rparr>"

text \<open>\<open>offline\<close> is the scripted world whose balance queries always raise.\<close>

definition offline :: "script env" where
  "offline = scripted\<lparr>eth_get_balance := (\<lambda>a w. (Inl (Raised ''unreachable''), w)),
                       balanceOf := (\<lambda>a w. (Inl (Raised ''unreachable''), w))\<rparr>"

text \<open>
  The world \<open>chain bs al qs ss\<close> with queued balances, allowances, quotes and
  receipt statuses, and the call of a USDC to MON swap of 0.5 USDC quoted at 1000
  with slippage 0.5.
\<close>

definition chain :: "int list \<Rightarrow> int list \<Rightarrow> int list \<Rightarrow> int list \<Rightarrow> script" where
  "chain bs al qs ss =
     \<lparr>q_balance = bs, q_allowance = al, q_quote = qs, q_status = ss, q_bits = [], q_uniform = []\<rparr>"

definition usdc_call :: calldata where
  "usdc_call = SwapExactTokensForETH 500000 995 [Some USDC_CONTRACT, Some WMON_CONTRACT] ''0xA11ce'' 1700003600"

section \<open>Reasoning rules for the effect monad\<close>

subsection \<open>Events issued\<close>

lemma emits_returnE: "emits P (returnE x)" by (simp add: emits_def returnE_def)
lemma emits_raiseE: "emits P (raiseE e)" by (simp add: emits_def raiseE_def)
lemma emits_liftE: "emits P (liftE r)" by (simp add: emits_def liftE_def)
lemma emits_emit: "list_all P t \<Longrightarrow> emits P (emit t)" by (simp add: emits_def emit_def)
lemma emits_rpc: "(\<And>r. list_all P (ev r)) \<Longrightarrow> emits P (rpc f ev)"
  by (simp add: emits_def rpc_def split: prod.splits)
lemma emits_bindE: "emits P m \<Longrightarrow> (\<And>x. emits P (f x)) \<Longrightarrow> emits P (bindE m f)"
  unfolding emits_def bindE_def
  by (auto split: prod.splits sum.splits) (metis snd_conv)+
lemma emits_try_except: "emits P m \<Longrightarrow> (\<And>e. emits P (h e)) \<Longrightarrow> emits P (try_except m h)"
  unfolding emits_def try_except_def
  by (auto split: prod.splits sum.splits) (metis snd_conv)+
lemma emits_sleep: "P (Slept d) \<Longrightarrow> emits P (sleep E d)" by (simp add: emits_def sleep_def)
lemma emits_randint: "emits P (randint E a b)"
  by (simp add: emits_def randint_def raiseE_def split: prod.splits)
lemma emits_choice: "emits P (random_choice_bool E)"
  by (simp add: emits_def random_choice_bool_def split: prod.splits)
lemma emits_uniform: "emits P (uniform E a b)"
  by (simp add: emits_def uniform_def split: prod.splits)
lemma emits_now: "emits P (\<lambda>w. (Inr (g w), w, []))" by (simp add: emits_def)
lemma emits_if: "(c \<Longrightarrow> emits P a) \<Longrightarrow> (\<not> c \<Longrightarrow> emits P b) \<Longrightarrow> emits P (if c then a else b)" by simp
lemma emits_case_prod: "(\<And>a b. emits P (f a b)) \<Longrightarrow> emits P (case x of (a, b) \<Rightarrow> f a b)"
  by (cases x) simp
lemma emits_case_option: "emits P a \<Longrightarrow> (\<And>x. emits P (f x)) \<Longrightarrow> emits P (case x of None \<Rightarrow> a | Some y \<Rightarrow> f y)"
  by (cases x) simp_all

lemmas emits_intros = emits_returnE emits_raiseE emits_liftE emits_rpc emits_bindE emits_try_except
  emits_randint emits_choice emits_uniform emits_now emits_if emits_case_prod emits_case_option

lemma emits_query_balance: "(\<And>r. P (BalanceQuery r)) \<Longrightarrow> emits P (query_balance E wallet tok)"
  unfolding query_balance_def by (intro emits_intros) simp_all

lemma emits_balance_loop:
  "(\<And>r. P (BalanceQuery r)) \<Longrightarrow> P (Slept 1) \<Longrightarrow> emits P (balance_loop E n wallet tok)"
proof (induction n arbitrary: wallet)
  case 0
  show ?case by (simp add: emits_returnE)
next
  case (Suc n)
  show ?case
    by (simp split: sum.split, intro conjI allI impI emits_intros emits_sleep emits_query_balance Suc)
qed

lemma emits_get_token_balance:
  "(\<And>r. P (BalanceQuery r)) \<Longrightarrow> P (Slept 1) \<Longrightarrow> emits P (get_token_balance E wallet tok)"
  unfolding get_token_balance_def by (rule emits_balance_loop)

lemma emits_get_gas_params: "emits P (get_gas_params E)"
  unfolding get_gas_params_def by (intro emits_intros) (simp_all add: quiet_def)

lemma emits_estimate_gas: "emits P (estimate_gas E tx)"
  unfolding estimate_gas_def by (intro emits_intros) (simp_all add: quiet_def)

lemma emits_sign_and_send:
  "P (Broadcast cd) \<Longrightarrow> (\<And>st. P (ReceiptAwaited cd st)) \<Longrightarrow> emits P (sign_and_send E acct cd tx)"
  unfolding sign_and_send_def by (intro emits_intros) simp_all

lemma emits_approve_token:
  "(\<And>a. P (AllowanceRead a)) \<Longrightarrow> P (Broadcast (Approve sp (2 ^ 256 - 1))) \<Longrightarrow>
   (\<And>st. P (ReceiptAwaited (Approve sp (2 ^ 256 - 1)) st)) \<Longrightarrow>
   emits P (approve_token E acct tok amt sp)"
  unfolding approve_token_def check_allowance_def
  by (intro emits_intros emits_get_gas_params emits_estimate_gas emits_sign_and_send)
     (simp_all add: quiet_def split: sum.splits)

subsection \<open>Results and traces together\<close>

lemma postD: "post Q m \<Longrightarrow> m w = (r, w', t) \<Longrightarrow> Q r t"
  by (auto simp: post_def split: prod.splits)

lemma post_weaken: "post Q m \<Longrightarrow> (\<And>r t. Q r t \<Longrightarrow> Q' r t) \<Longrightarrow> post Q' m"
  by (auto simp: post_def split: prod.splits)

lemma post_emits: "emits P m \<Longrightarrow> post (\<lambda>r t. list_all P t) m"
  by (auto simp: post_def emits_def split: prod.splits) (metis snd_conv)

lemma post_returnE: "post (\<lambda>r t. r = Inr x \<and> t = []) (returnE x)" by (simp add: post_def returnE_def)
lemma post_raiseE: "post (\<lambda>r t. r = Inl e \<and> t = []) (raiseE e)" by (simp add: post_def raiseE_def)
lemma post_liftE: "post (\<lambda>r t. r = v \<and> t = []) (liftE v)" by (simp add: post_def liftE_def)
lemma post_rpc: "post (\<lambda>r t. t = ev r) (rpc f ev)" by (simp add: post_def rpc_def split: prod.splits)
lemma post_emit: "post (\<lambda>r t. r = Inr () \<and> t = evs) (emit evs)" by (simp add: post_def emit_def)
lemma post_now: "post (\<lambda>r t. t = [] \<and> (\<exists>x. r = Inr x)) (\<lambda>w. (Inr (g w), w, []))" by (simp add: post_def)
lemma post_sleep: "post (\<lambda>r t. r = Inr () \<and> t = [Slept d]) (sleep E d)" by (simp add: post_def sleep_def)
lemma post_randint:
  "post (\<lambda>r t. t = [] \<and> (if b < a then r = Inl (ValueError ''empty range for randrange()'')
                           else \<exists>d. r = Inr d \<and> a \<le> d \<and> d \<le> b)) (randint E a b)"
  apply (auto simp: post_def randint_def raiseE_def split: prod.splits)
  subgoal for w n w1
    using pos_mod_bound[of "b - a + 1" "int n"] by (simp add: zmod_int)
  done
lemma post_bindE:
  "post A m \<Longrightarrow> (\<And>x. post (B x) (f x)) \<Longrightarrow>
   post (\<lambda>r t. (\<exists>e. r = Inl e \<and> A (Inl e) t) \<or> (\<exists>x t1 t2. t = t1 @ t2 \<and> A (Inr x) t1 \<and> B x r t2)) (bindE m f)"
  unfolding post_def bindE_def
  by (fastforce split: prod.splits sum.splits)
lemma post_try_except:
  "post A m \<Longrightarrow> (\<And>e. post (B e) (h e)) \<Longrightarrow>
   post (\<lambda>r t. (\<exists>x. r = Inr x \<and> A (Inr x) t) \<or> (\<exists>e t1 t2. t = t1 @ t2 \<and> A (Inl e) t1 \<and> B e r t2)) (try_except m h)"
  unfolding post_def try_except_def
  by (fastforce split: prod.splits sum.splits)
lemma post_if:
  "(c \<Longrightarrow> post A m1) \<Longrightarrow> (\<not> c \<Longrightarrow> post B m2) \<Longrightarrow> post (\<lambda>r t. if c then A r t else B r t) (if c then m1 else m2)"
  by simp
lemma post_case_prod:
  "(\<And>a b. post (A a b) (f a b)) \<Longrightarrow> post (\<lambda>r t. case x of (a, b) \<Rightarrow> A a b r t) (case x of (a, b) \<Rightarrow> f a b)"
  by (cases x) simp
lemma post_case_option:
  "post A m \<Longrightarrow> (\<And>y. post (B y) (f y)) \<Longrightarrow> post (\<lambda>r t. case x of None \<Rightarrow> A r t | Some y \<Rightarrow> B y r t) (case x of None \<Rightarrow> m | Some y \<Rightarrow> f y)"
  by (cases x) simp_all

lemmas post_rules = post_returnE post_raiseE post_liftE post_rpc post_emit post_now post_sleep post_randint
  post_bindE post_try_except post_if post_case_prod post_case_option

lemma post_lookup_token:
  "post (\<lambda>r t. t = [] \<and>
          r = (case AVAILABLE_TOKENS s of None \<Rightarrow> Inl (KeyError s) | Some tok \<Rightarrow> Inr tok))
     (lookup_token s)"
  unfolding lookup_token_def
  by (rule post_weaken, (rule post_rules)+) (auto split: option.splits)

lemma post_get_token_balance: "post (\<lambda>r t. list_all aux_event t) (get_token_balance E a tok)"
  by (rule post_emits, rule emits_get_token_balance) simp_all

lemma post_approve_token: "post (\<lambda>r t. list_all aux_event t) (approve_token E acct tok amt sp)"
  by (rule post_emits, rule emits_approve_token) simp_all

lemma post_silent: "emits (\<lambda>_. False) m \<Longrightarrow> post (\<lambda>r t. t = []) m"
  by (rule post_weaken, erule post_emits) (simp add: list_all_iff)

lemma post_get_gas_params: "post (\<lambda>r t. t = []) (get_gas_params E)"
  by (rule post_silent, rule emits_get_gas_params)

lemma post_estimate_gas: "post (\<lambda>r t. t = []) (estimate_gas E tx)"
  by (rule post_silent, rule emits_estimate_gas)

lemma post_sign_and_send:
  "post (\<lambda>r t. (\<exists>e. r = Inl e \<and> (t = [] \<or> t = [Broadcast cd] \<or> t = [Broadcast cd, ReceiptAwaited cd None]))
             \<or> (\<exists>h rc. r = Inr (h, rc) \<and> t = [Broadcast cd, ReceiptAwaited cd (Some (status rc))]))
     (sign_and_send E acct cd tx)"
  unfolding sign_and_send_def
  apply (rule post_weaken)
   apply (rule post_rules)+
  apply (auto split: sum.splits)
  done

lemmas sub_posts = post_lookup_token post_get_token_balance post_approve_token post_get_gas_params
  post_estimate_gas post_sign_and_send

lemma post_conj: "post A m \<Longrightarrow> post B m \<Longrightarrow> post (\<lambda>r t. A r t \<and> B r t) m"
  by (auto simp: post_def split: prod.splits)

lemma emits_post: "post (\<lambda>r t. list_all P t) m \<Longrightarrow> emits P m"
  by (auto simp: post_def emits_def split: prod.splits) (metis prod.collapse)

lemma emitsD: "emits P m \<Longrightarrow> m w = (r, w', t) \<Longrightarrow> list_all P t"
  by (auto simp: emits_def) (metis snd_conv)


section \<open>Facts about the trace observers\<close>

lemma swap_receipts_append [simp]: "swap_receipts (a @ b) = swap_receipts a @ swap_receipts b"
  by (induction a rule: swap_receipts.induct) simp_all
lemma swap_receipts_aux: "list_all aux_event t \<Longrightarrow> swap_receipts t = []"
  by (induction t rule: swap_receipts.induct) simp_all
lemma attempts_append [simp]: "attempts (a @ b) = attempts a @ attempts b"
  by (induction a rule: attempts.induct) simp_all
lemma attempts_aux: "list_all aux_event t \<Longrightarrow> attempts t = []"
  by (induction t rule: attempts.induct) simp_all
lemma broadcasts_append [simp]: "broadcasts (a @ b) = broadcasts a @ broadcasts b"
  by (induction a rule: broadcasts.induct) simp_all
lemma sleeps_append [simp]: "sleeps (a @ b) = sleeps a @ sleeps b"
  by (induction a rule: sleeps.induct) simp_all

lemma not_swap_no_min: "\<not> is_swap_call cd \<Longrightarrow> amount_out_min cd = None"
  by (cases cd) simp_all

lemma protected_aux_append:
  "list_all aux_event t1 \<Longrightarrow> slippage_protected r sl q (t1 @ t2) = slippage_protected r sl q t2"
proof (induction t1)
  case Nil
  show ?case by simp
next
  case (Cons ev t1)
  then show ?case by (cases ev) (simp_all add: not_swap_no_min)
qed

lemma protected_aux: "list_all aux_event t \<Longrightarrow> slippage_protected r sl q t"
  using protected_aux_append[of t r sl q "[]"] by simp

lemma protected_append:
  "slippage_protected r sl q t1 \<Longrightarrow> (\<And>q'. slippage_protected r sl q' t2) \<Longrightarrow>
   slippage_protected r sl q (t1 @ t2)"
  by (induction r sl q t1 rule: slippage_protected.induct) simp_all

section \<open>instance.py: one attempt and the retry loop of swap\<close>

lemma attempt_post:
  "post (\<lambda>res t. attempts t = [] \<and> (\<forall>q. slippage_protected (rnd E) slippage q t) \<and>
          (case res of
            Inl e \<Rightarrow> 1 \<notin> set (swap_receipts t)
          | Inr None \<Rightarrow> 1 \<notin> set (swap_receipts t)
          | Inr (Some out) \<Rightarrow> 1 \<in> set (swap_receipts t) \<and> success out \<and> (\<exists>h. tx_hash out = Some (''0x'' @ h))))
     (swap_attempt E acct token_from token_to amount slippage)"
  unfolding swap_attempt_def
  apply (rule post_weaken)
   apply (rule sub_posts post_rules)+
  apply (auto simp: swap_receipts_aux attempts_aux protected_aux_append protected_aux quiet_def to_hex_def
      split: sum.splits option.splits if_splits)
  done

lemma swap_loop_post:
  "post (\<lambda>res t. length (attempts t) \<le> n \<and> (\<forall>q. slippage_protected (rnd E) sl q t) \<and>
          (case res of
             Inr out \<Rightarrow> (success out \<or> error out = Some ''Max retry attempts reached'') \<and>
                        (success out \<longleftrightarrow> 1 \<in> set (swap_receipts t)) \<and>
                        (success out \<longrightarrow> (\<exists>h. tx_hash out = Some (''0x'' @ h)))
           | Inl e \<Rightarrow> e = ValueError ''empty range for randrange()'' \<and>
                       1 \<notin> set (swap_receipts t) \<and>
                       range_hi (PAUSE_BETWEEN_ATTEMPTS cfg) < range_lo (PAUSE_BETWEEN_ATTEMPTS cfg) \<and>
                       1 < ATTEMPTS cfg))
     (swap_loop E cfg acct tf tt amount sl n retry)"
proof (induction n arbitrary: retry)
  case 0
  show ?case
    by (simp, rule post_weaken, rule post_returnE) (simp add: failure_def)
next
  case (Suc n)
  show ?case
    apply (simp only: swap_loop.simps)
    apply (rule post_weaken)
     apply (rule attempt_post Suc post_rules)+
    apply (clarsimp split: if_splits)
     apply (auto simp: protected_append split: option.splits sum.splits if_splits)[1]
    apply (auto simp: protected_append split: option.splits sum.splits if_splits)[1]
    done
qed

text \<open>
  What the call returns when the pause pair is ordered, or when at most one
  attempt is permitted (the handler then never draws a pause).
\<close>

lemma swap_loop_returns:
  assumes "range_lo (PAUSE_BETWEEN_ATTEMPTS cfg) \<le> range_hi (PAUSE_BETWEEN_ATTEMPTS cfg) \<or> ATTEMPTS cfg \<le> 1"
    and "swap_loop E cfg acct tf tt amount sl n retry w = (res, w', t)"
  shows "\<exists>out. res = Inr out"
  using postD[OF swap_loop_post assms(2)] assms(1)
  by (cases res) auto

section \<open>crystal_swap.py: one attempt and the retry loop\<close>

lemma emits_crystal_estimate_gas: "emits P (crystal_estimate_gas E tx)"
  unfolding crystal_estimate_gas_def by (intro emits_intros) (simp_all add: quiet_def)

lemma post_crystal_estimate_gas: "post (\<lambda>r t. t = []) (crystal_estimate_gas E tx)"
  by (rule post_silent, rule emits_crystal_estimate_gas)

lemma emits_approve_usdc:
  "(\<And>a. P (AllowanceRead a)) \<Longrightarrow> P (Broadcast (Approve ROUTER_CONTRACT (2 ^ 256 - 1))) \<Longrightarrow>
   (\<And>st. P (ReceiptAwaited (Approve ROUTER_CONTRACT (2 ^ 256 - 1)) st)) \<Longrightarrow>
   emits P (approve_usdc E acct amt)"
  unfolding approve_usdc_def
  by (intro emits_intros emits_get_gas_params emits_crystal_estimate_gas emits_sign_and_send)
     (simp_all add: quiet_def split: sum.splits)

lemma post_approve_usdc: "post (\<lambda>r t. list_all aux_event t) (approve_usdc E acct amt)"
  by (rule post_emits, rule emits_approve_usdc) simp_all

lemma post_crystal_send:
  "post (\<lambda>res t.
      (\<exists>e. res = Inl e \<and> (t = [] \<or> t = [Broadcast cd] \<or> t = [Broadcast cd, ReceiptAwaited cd None])) \<or>
      (\<exists>out st. res = Inr out \<and> t = [Broadcast cd, ReceiptAwaited cd (Some st)] \<and>
         (success out \<longleftrightarrow> st = 1) \<and> (success out \<longrightarrow> (\<exists>h. tx_hash out = Some h)) \<and>
         (\<not> success out \<longrightarrow> error out = Some ''Transaction reverted'')))
     (crystal_send E acct cd val from_name to_name amount)"
  unfolding crystal_send_def
  apply (rule post_weaken)
   apply (rule post_crystal_estimate_gas sub_posts post_rules)+
  apply (auto simp: quiet_def failure_def split: sum.splits if_splits)
  done

lemma sign_and_send_hash:
  assumes "hashes_nonempty E" and "sign_and_send E acct cd tx w = (Inr (h, rc), w', t)"
  shows "h \<noteq> []"
  using assms unfolding sign_and_send_def hashes_nonempty_def
  by (auto simp: bindE_def liftE_def rpc_def returnE_def split: sum.splits prod.splits)
     (metis fst_conv)

lemma crystal_send_hash:
  assumes "hashes_nonempty E"
    and "crystal_send E acct cd val from_name to_name amount w = (Inr out, w', t)"
    and "success out"
  shows "\<exists>h. tx_hash out = Some h \<and> h \<noteq> []"
  using assms(2,3) unfolding crystal_send_def
  by (auto simp: bindE_def returnE_def failure_def split: sum.splits prod.splits if_splits
      dest: sign_and_send_hash[OF assms(1)])

lemma post_crystal_send_hash:
  assumes "hashes_nonempty E"
  shows "post (\<lambda>res t. \<forall>out. res = Inr out \<longrightarrow> success out \<longrightarrow> (\<exists>h. tx_hash out = Some h \<and> h \<noteq> []))
           (crystal_send E acct cd val from_name to_name amount)"
  unfolding post_def
  by (auto split: prod.splits dest: crystal_send_hash[OF assms])

lemma post_mon_to_usdc_attempt:
  assumes "hashes_nonempty E"
  shows "post crystal_attempt_post (mon_to_usdc_attempt E acct amount amount_wei deadline)"
  unfolding mon_to_usdc_attempt_def
  apply (rule post_weaken, rule post_conj[OF post_crystal_send post_crystal_send_hash[OF assms]])
  apply (auto simp: crystal_attempt_post_def)
  done

lemma post_usdc_to_mon_attempt:
  assumes "hashes_nonempty E"
  shows "post crystal_attempt_post (usdc_to_mon_attempt E acct amount amount_wei deadline)"
  unfolding usdc_to_mon_attempt_def
  apply (rule post_weaken)
   apply (rule post_approve_usdc post_conj[OF post_crystal_send post_crystal_send_hash[OF assms]] post_rules)+
  apply (auto simp: crystal_attempt_post_def failure_def swap_receipts_aux attempts_aux split: if_splits)
  done

lemma crystal_loop_post:
  assumes body: "post crystal_attempt_post body"
  shows "post (\<lambda>res t. length (attempts t) \<le> n \<and>
           (case res of
              Inr out \<Rightarrow> length (swap_receipts t) \<le> 1 \<and> (success out \<longleftrightarrow> swap_receipts t = [1]) \<and>
                         (success out \<longrightarrow> (\<exists>h. tx_hash out = Some h \<and> h \<noteq> [])) \<and>
                         (\<not> success out \<longrightarrow> (\<exists>msg. error out = Some msg))
            | Inl e \<Rightarrow> swap_receipts t = []))
     (crystal_loop E cfg body n k)"
proof (induction n arbitrary: k)
  case 0
  show ?case
    by (simp, rule post_weaken, rule post_returnE) (simp add: failure_def)
next
  case (Suc n)
  show ?case
    apply (simp only: crystal_loop.simps)
    apply (rule post_weaken)
     apply (rule body Suc post_rules)+
    apply (clarsimp simp: crystal_attempt_post_def)
    apply (elim disjE exE conjE; clarsimp split: if_splits sum.splits)
    done
qed

lemma emits_crystal_send:
  "P (Broadcast cd) \<Longrightarrow> (\<And>st. P (ReceiptAwaited cd st)) \<Longrightarrow>
   emits P (crystal_send E acct cd val from_name to_name amount)"
  unfolding crystal_send_def
  by (intro emits_intros emits_get_gas_params emits_crystal_estimate_gas emits_sign_and_send)
     (simp_all add: quiet_def)

lemma emits_crystal_loop:
  "emits P body \<Longrightarrow> (\<And>k. P (Attempt k)) \<Longrightarrow> (\<And>d. P (Slept d)) \<Longrightarrow>
   emits P (crystal_loop E cfg body n k)"
proof (induction n arbitrary: k)
  case 0
  show ?case by (simp add: emits_returnE)
next
  case (Suc n)
  show ?case
    by (simp only: crystal_loop.simps, intro emits_intros emits_emit emits_sleep Suc) (simp_all add: Suc.prems)
qed

lemma emits_swap_mon_to_usdc:
  "(\<And>dl. P (Broadcast (SwapExactETHForTokens 0 [Some WMON_CONTRACT, Some USDC_CONTRACT] (account_address acct) dl))) \<Longrightarrow>
   (\<And>dl st. P (ReceiptAwaited (SwapExactETHForTokens 0 [Some WMON_CONTRACT, Some USDC_CONTRACT] (account_address acct) dl) st)) \<Longrightarrow>
   (\<And>k. P (Attempt k)) \<Longrightarrow> (\<And>d. P (Slept d)) \<Longrightarrow>
   emits P (swap_mon_to_usdc E cfg acct amount)"
  unfolding swap_mon_to_usdc_def mon_to_usdc_attempt_def
  by (intro emits_intros emits_crystal_loop emits_crystal_send) simp_all

lemma emits_swap_usdc_to_mon:
  "(\<And>a dl. P (Broadcast (SwapExactTokensForETH a 0 [Some USDC_CONTRACT, Some WMON_CONTRACT] (account_address acct) dl))) \<Longrightarrow>
   (\<And>a dl st. P (ReceiptAwaited (SwapExactTokensForETH a 0 [Some USDC_CONTRACT, Some WMON_CONTRACT] (account_address acct) dl) st)) \<Longrightarrow>
   (\<And>a. P (AllowanceRead a)) \<Longrightarrow> P (Broadcast (Approve ROUTER_CONTRACT (2 ^ 256 - 1))) \<Longrightarrow>
   (\<And>st. P (ReceiptAwaited (Approve ROUTER_CONTRACT (2 ^ 256 - 1)) st)) \<Longrightarrow>
   (\<And>k. P (Attempt k)) \<Longrightarrow> (\<And>d. P (Slept d)) \<Longrightarrow>
   emits P (swap_usdc_to_mon E cfg acct amount)"
  unfolding swap_usdc_to_mon_def usdc_to_mon_attempt_def
  by (intro emits_intros emits_crystal_loop emits_crystal_send emits_approve_usdc) simp_all

section \<open>Concrete runs in the scripted world\<close>

lemmas io_defs =
  bindE_def returnE_def raiseE_def liftE_def try_except_def rpc_def quiet_def emit_def sleep_def
  randint_def random_choice_bool_def uniform_def

lemma get_token_balance_unfold:
  "get_token_balance E wallet tok =
     (case to_checksum_address E wallet of
        Inl e \<Rightarrow> bindE (sleep E 1) (\<lambda>_. balance_loop E 15 wallet tok)
      | Inr wallet' \<Rightarrow>
          try_except (query_balance E wallet' tok)
            (\<lambda>e. bindE (sleep E 1) (\<lambda>_. balance_loop E 15 wallet' tok)))"
proof -
  have "(16::nat) = Suc 15" by simp
  then show ?thesis unfolding get_token_balance_def by (simp only: balance_loop.simps)
qed

lemma one: "ATTEMPTS (settings 1) = Suc 0" by (simp add: settings_def)

lemma two: "ATTEMPTS (settings 2) = Suc (Suc 0)" by (simp add: settings_def)

lemma run_crystal_send:
  "crystal_send scripted alice cd val fn tn am
     \<lparr>q_balance = bs, q_allowance = al, q_quote = qs, q_status = s # ss, q_bits = bi, q_uniform = un\<rparr> =
   (Inr (if s = 1 then \<lparr>success = True, tx_hash = Some ''ab12'', from_token = Some fn,
                to_token = Some tn, amount_in = Some am, expected_out = None,
                gas_used = None, error = None\<rparr> else failure ''Transaction reverted''),
    \<lparr>q_balance = bs, q_allowance = al, q_quote = qs, q_status = ss, q_bits = bi, q_uniform = un\<rparr>,
    [Broadcast cd, ReceiptAwaited cd (Some s)])"
  by (simp add: crystal_send_def get_gas_params_def crystal_estimate_gas_def sign_and_send_def
      scripted_def alice_def io_defs)

lemma run_swap_attempt_mon:
  "swap_attempt scripted alice ''MON'' ''USDC'' (1 / 2) (1 / 2) (rich (1000000000000000000 # bs) (1000 # qs) (s # ss)) =
     (Inr (if s = 1 then Some mon_success else None), rich bs qs ss,
      [BalanceQuery (Inr 1000000000000000000), Quoted [500000000000000000, 1000],
       Broadcast mon_call, ReceiptAwaited mon_call (Some s)])"
  by (simp add: swap_attempt_def get_token_balance_unfold query_balance_def
      lookup_token_def AVAILABLE_TOKENS_def MON_def USDC_def
      get_gas_params_def estimate_gas_def sign_and_send_def min_amount_out_def py_int_def
      from_wei_ether_def MAX_UINT256_def to_hex_def rich_def mon_call_def mon_success_def
      scripted_def alice_def io_defs WMON_CONTRACT_def USDC_CONTRACT_def ROUTER_CONTRACT_def)

lemma run_swap_attempt_poor:
  "swap_attempt scripted alice ''MON'' ''USDC'' (1 / 2) (1 / 2) (rich (5 # bs) qs ss) =
     (Inl (InsufficientBalance (5 / 10 ^ 18) ''MON'' (1 / 2)), rich bs qs ss, [BalanceQuery (Inr 5)])"
  by (simp add: swap_attempt_def get_token_balance_unfold query_balance_def
      lookup_token_def AVAILABLE_TOKENS_def MON_def USDC_def
      from_wei_ether_def MAX_UINT256_def rich_def scripted_def alice_def io_defs)

lemma run_pause:
  "randint scripted 3 10 (rich bs qs ss) = (Inr 3, rich bs qs ss, [])"
  by (simp add: randint_def scripted_def rich_def)

lemma run_sleep: "sleep scripted d w = (Inr (), w, [Slept d])"
  by (simp add: sleep_def scripted_def)

section \<open>C2: swap returns an Outcome unless the pause pair is reversed\<close>

text \<open>
  C2, as stated, fails on instance.py: the \<^verbatim>\<open>except\<close> handler of \<^verbatim>\<open>swap\<close> itself
  calls \<^verbatim>\<open>random.randint(*PAUSE_BETWEEN_ATTEMPTS)\<close>, and nothing catches what that
  call raises. In the run below two attempts are permitted, the pause pair is
  (10, 3), and the first attempt fails (the balance is 5 base units, the amount
  0.5 MON): the ValueError of \<^verbatim>\<open>randint\<close> leaves \<^verbatim>\<open>swap\<close>.
\<close>

theorem swap_raises_on_reversed_pause:
  "swap scripted (reversed_pause 2) alice ''MON'' ''USDC'' (1 / 2) (1 / 2) (rich [5] [] []) =
     (Inl (ValueError ''empty range for randrange()''), rich [] [] [],
      [Attempt 0, BalanceQuery (Inr 5)])"
proof -
  have cfg: "ATTEMPTS (reversed_pause 2) = Suc (Suc 0)"
    "range_lo (PAUSE_BETWEEN_ATTEMPTS (reversed_pause 2)) = 10"
    "range_hi (PAUSE_BETWEEN_ATTEMPTS (reversed_pause 2)) = 3"
    by (simp_all add: reversed_pause_def settings_def)
  show ?thesis
    unfolding swap_def cfg(1)
    by (simp add: cfg run_swap_attempt_poor bindE_def try_except_def emit_def returnE_def
        randint_def raiseE_def)
qed

text \<open>
  C2, amended. \<^verbatim>\<open>swap\<close> of instance.py starts at most
  \<^verbatim>\<open>config.SETTINGS.ATTEMPTS\<close> attempts, from every world and for every argument.
  When the pause pair is ordered (its first component is at most its second), or
  when at most one attempt is permitted, it returns an Outcome: either the success
  flag is set, or it carries the error message "Max retry attempts reached". The
  only exception that can leave \<^verbatim>\<open>swap\<close> is the ValueError of \<^verbatim>\<open>random.randint\<close>.
\<close>

theorem swap_never_raises:
  "length (attempts (snd (snd (swap E cfg acct token_from token_to amount slippage w)))) \<le> ATTEMPTS cfg \<and>
   (range_lo (PAUSE_BETWEEN_ATTEMPTS cfg) \<le> range_hi (PAUSE_BETWEEN_ATTEMPTS cfg) \<or> ATTEMPTS cfg \<le> 1 \<longrightarrow>
      (\<exists>out w' t. swap E cfg acct token_from token_to amount slippage w = (Inr out, w', t) \<and>
         (success out \<or> error out = Some ''Max retry attempts reached''))) \<and>
   (\<forall>e. fst (swap E cfg acct token_from token_to amount slippage w) = Inl e \<longrightarrow>
      e = ValueError ''empty range for randrange()'' \<and>
      range_hi (PAUSE_BETWEEN_ATTEMPTS cfg) < range_lo (PAUSE_BETWEEN_ATTEMPTS cfg) \<and> 1 < ATTEMPTS cfg)"
proof -
  obtain res w' t where run: "swap E cfg acct token_from token_to amount slippage w = (res, w', t)"
    by (cases "swap E cfg acct token_from token_to amount slippage w") auto
  from postD[OF swap_loop_post, of E cfg acct token_from token_to amount slippage "ATTEMPTS cfg" 0 w res w' t] run
  show ?thesis
    by (cases res) (auto simp: swap_def)
qed

theorem swap_never_raises_witness:
  "range_lo (PAUSE_BETWEEN_ATTEMPTS (settings 3)) \<le> range_hi (PAUSE_BETWEEN_ATTEMPTS (settings 3)) \<and>
   (\<exists>out w' t. swap scripted (settings 3) alice ''MON'' ''USDC'' 1 (1 / 2) world0 = (Inr out, w', t) \<and>
      (success out \<or> error out = Some ''Max retry attempts reached'')) \<and>
   length (attempts (snd (snd (swap scripted (settings 3) alice ''MON'' ''USDC'' 1 (1 / 2) world0)))) \<le> 3"
  using swap_never_raises[of scripted "settings 3" alice "''MON''" "''USDC''" 1 "1 / 2" world0]
  by (simp add: settings_def)

section \<open>C1: a swap beyond the balance\<close>

lemma broadcasts_aux_free:
  "list_all (\<lambda>ev. (\<exists>r. ev = BalanceQuery r) \<or> (\<exists>d. ev = Slept d)) t \<Longrightarrow> broadcasts t = []"
  by (induction t rule: broadcasts.induct) auto

lemma post_query_balance_value:
  "post (\<lambda>r t. (\<exists>e. r = Inl e \<and> t = [BalanceQuery (Inl e)]) \<or>
                (\<exists>b. t = [BalanceQuery (Inr b)] \<and> r = balance_value E tok b))
     (query_balance E wallet tok)"
  unfolding query_balance_def balance_value_def
  apply (rule post_weaken)
   apply (rule post_rules)+
  apply (auto split: if_splits)
  done

text \<open>
  The balance \<^verbatim>\<open>get_token_balance\<close> returns is below every positive amount that all
  the answers of its queries are below: it is the value of the last answer, or 0.
\<close>

lemma post_balance_loop_short:
  "post (\<lambda>r t. list_all (\<lambda>ev. (\<exists>r. ev = BalanceQuery r) \<or> (\<exists>d. ev = Slept d)) t \<and>
           (\<exists>bal. r = Inr bal \<and>
              (\<forall>amount. 0 < amount \<longrightarrow> list_all (short_answer E tok amount) t \<longrightarrow> bal < amount)))
     (balance_loop E n wallet tok)"
proof (induction n arbitrary: wallet)
  case 0
  show ?case
    by (simp, rule post_weaken, rule post_returnE) simp
next
  case (Suc n)
  show ?case
  proof (cases "to_checksum_address E wallet")
    case (Inl e)
    show ?thesis
      apply (simp only: balance_loop.simps Inl sum.case)
      apply (rule post_weaken)
       apply (rule Suc post_rules)+
      apply auto
      done
  next
    case (Inr wallet')
    show ?thesis
      apply (simp only: balance_loop.simps Inr sum.case)
      apply (rule post_weaken)
       apply (rule post_query_balance_value Suc post_rules)+
      apply (auto split: sum.splits)
      done
  qed
qed

lemma post_get_token_balance_short:
  "post (\<lambda>r t. list_all (\<lambda>ev. (\<exists>r. ev = BalanceQuery r) \<or> (\<exists>d. ev = Slept d)) t \<and>
           (\<exists>bal. r = Inr bal \<and>
              (\<forall>amount. 0 < amount \<longrightarrow> list_all (short_answer E tok amount) t \<longrightarrow> bal < amount)))
     (get_token_balance E wallet tok)"
  unfolding get_token_balance_def by (rule post_balance_loop_short)

lemma attempt_short:
  assumes known: "AVAILABLE_TOKENS token_from = Some token_a"
  shows "post (\<lambda>res t. 0 < amount \<and> list_all (short_answer E token_a amount) t \<longrightarrow>
             (\<exists>e. res = Inl e) \<and> broadcasts t = [])
           (swap_attempt E acct token_from token_to amount slippage)"
  unfolding swap_attempt_def
  apply (rule post_weaken)
   apply (rule post_get_token_balance_short post_lookup_token post_approve_token post_get_gas_params
      post_estimate_gas post_sign_and_send post_rules)+
  using known apply (auto simp: broadcasts_aux_free split: option.splits)
  done

lemma swap_loop_short:
  assumes known: "AVAILABLE_TOKENS token_from = Some token_a"
  shows "post (\<lambda>res t. 0 < amount \<and> list_all (short_answer E token_a amount) t \<longrightarrow>
             broadcasts t = [] \<and>
             (case res of
                Inr out \<Rightarrow> out = failure ''Max retry attempts reached''
              | Inl e \<Rightarrow> range_hi (PAUSE_BETWEEN_ATTEMPTS cfg) < range_lo (PAUSE_BETWEEN_ATTEMPTS cfg) \<and>
                         1 < ATTEMPTS cfg))
           (swap_loop E cfg acct token_from token_to amount slippage n retry)"
proof (induction n arbitrary: retry)
  case 0
  show ?case
    by (simp, rule post_weaken, rule post_returnE) simp
next
  case (Suc n)
  show ?case
    apply (simp only: swap_loop.simps)
    apply (rule post_weaken)
     apply (rule attempt_short[OF known] Suc post_rules)+
    apply (clarsimp split: if_splits)
    apply (elim disjE exE conjE; clarsimp split: if_splits sum.splits)
    done
qed

lemma steady_balance:
  "crystal_get_token_balance (steady 5) alice MON w = (Inr (5 / 10 ^ 18), w, [BalanceQuery (Inr 5)])"
  by (simp add: crystal_get_token_balance_def steady_def scripted_def query_balance_def MON_def
      from_wei_ether_def MAX_UINT256_def bindE_def try_except_def rpc_def liftE_def)

lemma run_crystal_send_steady:
  "crystal_send (steady b) alice cd val fn tn am
     \<lparr>q_balance = bs, q_allowance = al, q_quote = qs, q_status = s # ss, q_bits = bi, q_uniform = un\<rparr> =
   (Inr (if s = 1 then \<lparr>success = True, tx_hash = Some ''ab12'', from_token = Some fn,
                to_token = Some tn, amount_in = Some am, expected_out = None,
                gas_used = None, error = None\<rparr> else failure ''Transaction reverted''),
    \<lparr>q_balance = bs, q_allowance = al, q_quote = qs, q_status = ss, q_bits = bi, q_uniform = un\<rparr>,
    [Broadcast cd, ReceiptAwaited cd (Some s)])"
  by (simp add: crystal_send_def get_gas_params_def crystal_estimate_gas_def sign_and_send_def
      steady_def scripted_def alice_def io_defs)

text \<open>
  C1, as stated, fails on crystal_swap.py: \<^verbatim>\<open>swap_mon_to_usdc\<close> queries no balance
  and has no balance check. In the run below every balance query answers 5 base
  units (\<^verbatim>\<open>get_token_balance\<close> reads 5e-18 MON), the amount is 1 MON, and the call
  broadcasts its swap transaction and returns a success Outcome.
\<close>

theorem swap_mon_to_usdc_ignores_balance:
  "crystal_get_token_balance (steady 5) alice MON (rich [] [] [1]) =
     (Inr (5 / 10 ^ 18), rich [] [] [1], [BalanceQuery (Inr 5)]) \<and>
   swap_mon_to_usdc (steady 5) (settings 1) alice 1 (rich [] [] [1]) =
     (Inr \<lparr>success = True, tx_hash = Some ''ab12'', from_token = Some ''MON'', to_token = Some ''USDC'',
           amount_in = Some 1, expected_out = None, gas_used = None, error = None\<rparr>,
      rich [] [] [],
      [Attempt 0,
       Broadcast (SwapExactETHForTokens 0 [Some WMON_CONTRACT, Some USDC_CONTRACT] ''0xA11ce'' 1700000600),
       ReceiptAwaited (SwapExactETHForTokens 0 [Some WMON_CONTRACT, Some USDC_CONTRACT] ''0xA11ce'' 1700000600)
         (Some 1)])"
proof -
  have pre: "to_wei_ether (steady 5) 1 = Inr 1000000000000000000" "time_time (steady 5) w = 1700000000" for w
    by (simp_all add: steady_def scripted_def)
  have run: "swap_mon_to_usdc (steady 5) (settings 1) alice 1 (rich [] [] [1]) =
     (Inr \<lparr>success = True, tx_hash = Some ''ab12'', from_token = Some ''MON'', to_token = Some ''USDC'',
           amount_in = Some 1, expected_out = None, gas_used = None, error = None\<rparr>,
      rich [] [] [],
      [Attempt 0,
       Broadcast (SwapExactETHForTokens 0 [Some WMON_CONTRACT, Some USDC_CONTRACT] ''0xA11ce'' 1700000600),
       ReceiptAwaited (SwapExactETHForTokens 0 [Some WMON_CONTRACT, Some USDC_CONTRACT] ''0xA11ce'' 1700000600)
         (Some 1)])"
    unfolding swap_mon_to_usdc_def mon_to_usdc_attempt_def one
    by (simp add: pre rich_def run_crystal_send_steady io_defs) (simp add: alice_def)
  show ?thesis
    by (simp only: run steady_balance simp_thms)
qed

text \<open>
  C1, amended. Let the source token be in the registry and the amount be positive.
  Whenever every balance query that a call of \<^verbatim>\<open>swap\<close> of instance.py gets answered
  reads less than \<^verbatim>\<open>amount\<close> (a query that is never answered reads as 0), the call
  issues no \<^verbatim>\<open>send_raw_transaction\<close> and returns no success; it returns the failure
  Outcome "Max retry attempts reached" when the pause pair is ordered or at most
  one attempt is permitted (otherwise the ValueError of \<^verbatim>\<open>random.randint\<close> leaves
  the call, still with no broadcast). The two swap functions of crystal_swap.py
  query no balance at all. The hypothesis speaks of the queries of this call: \<open>t\<close>
  is its trace.
\<close>

theorem swap_insufficient_balance:
  assumes "swap E cfg acct token_from token_to amount slippage w = (res, w', t)"
    and "AVAILABLE_TOKENS token_from = Some token_a"
    and "0 < amount"
    and "list_all (short_answer E token_a amount) t"
  shows "broadcasts t = [] \<and>
         (\<forall>out. res = Inr out \<longrightarrow> \<not> success out) \<and>
         (range_lo (PAUSE_BETWEEN_ATTEMPTS cfg) \<le> range_hi (PAUSE_BETWEEN_ATTEMPTS cfg) \<or> ATTEMPTS cfg \<le> 1 \<longrightarrow>
            res = Inr (failure ''Max retry attempts reached'')) \<and>
         emits no_balance_query (swap_mon_to_usdc E cfg acct amount) \<and>
         emits no_balance_query (swap_usdc_to_mon E cfg acct amount)"
proof -
  from postD[OF swap_loop_short[OF assms(2)] assms(1)[unfolded swap_def]] assms(3,4)
  have main: "broadcasts t = [] \<and>
      (case res of
         Inr out \<Rightarrow> out = failure ''Max retry attempts reached''
       | Inl e \<Rightarrow> range_hi (PAUSE_BETWEEN_ATTEMPTS cfg) < range_lo (PAUSE_BETWEEN_ATTEMPTS cfg) \<and>
                  1 < ATTEMPTS cfg)"
    by simp
  have "emits no_balance_query (swap_mon_to_usdc E cfg acct amount)"
    by (rule emits_swap_mon_to_usdc) simp_all
  moreover have "emits no_balance_query (swap_usdc_to_mon E cfg acct amount)"
    by (rule emits_swap_usdc_to_mon) simp_all
  ultimately show ?thesis
    using main by (cases res) (auto simp: failure_def)
qed

theorem swap_insufficient_balance_witness:
  "swap scripted (settings 2) alice ''MON'' ''USDC'' (1 / 2) (1 / 2) (rich [5, 5] [] []) =
     (Inr (failure ''Max retry attempts reached''), rich [] [] [],
      [Attempt 0, BalanceQuery (Inr 5), Slept 3, Attempt 1, BalanceQuery (Inr 5)]) \<and>
   list_all (short_answer scripted MON (1 / 2))
     [Attempt 0, BalanceQuery (Inr 5), Slept 3, Attempt 1, BalanceQuery (Inr 5)] \<and>
   broadcasts [Attempt 0, BalanceQuery (Inr 5), Slept 3, Attempt 1, BalanceQuery (Inr 5)] = []"
proof -
  have cfg: "range_lo (PAUSE_BETWEEN_ATTEMPTS (settings 2)) = 3"
    "range_hi (PAUSE_BETWEEN_ATTEMPTS (settings 2)) = 10"
    by (simp_all add: settings_def)
  have run: "swap scripted (settings 2) alice ''MON'' ''USDC'' (1 / 2) (1 / 2) (rich [5, 5] [] []) =
     (Inr (failure ''Max retry attempts reached''), rich [] [] [],
      [Attempt 0, BalanceQuery (Inr 5), Slept 3, Attempt 1, BalanceQuery (Inr 5)])"
    unfolding swap_def two
    by (simp add: cfg two run_swap_attempt_poor run_pause run_sleep bindE_def try_except_def emit_def
        returnE_def)
  have known: "AVAILABLE_TOKENS ''MON'' = Some MON"
    by (simp add: AVAILABLE_TOKENS_def)
  have short: "list_all (short_answer scripted MON (1 / 2))
     [Attempt 0, BalanceQuery (Inr 5), Slept 3, Attempt 1, BalanceQuery (Inr 5)]"
    by (simp add: balance_value_def from_wei_ether_def MON_def MAX_UINT256_def scripted_def)
  from swap_insufficient_balance[OF run known _ short] run short
  show ?thesis by simp
qed

section \<open>C3: the minimum output passed to the router\<close>

text \<open>
  C3, as stated, fails on crystal_swap.py: \<^verbatim>\<open>swap_mon_to_usdc\<close> requests no quote and
  broadcasts \<^verbatim>\<open>swapExactETHForTokens(0, ...)\<close>, so the minimum output is 0 whatever
  the router would quote.
\<close>

theorem crystal_swap_passes_zero:
  "snd (snd (swap_mon_to_usdc scripted (settings 1) alice 1 (world0\<lparr>q_status := [1]\<rparr>))) =
     [Attempt 0,
      Broadcast (SwapExactETHForTokens 0 [Some WMON_CONTRACT, Some USDC_CONTRACT] ''0xA11ce'' 1700000600),
      ReceiptAwaited (SwapExactETHForTokens 0 [Some WMON_CONTRACT, Some USDC_CONTRACT] ''0xA11ce'' 1700000600) (Some 1)] \<and>
   \<not> slippage_protected (rnd scripted) (1 / 2) None
       (snd (snd (swap_mon_to_usdc scripted (settings 1) alice 1 (world0\<lparr>q_status := [1]\<rparr>))))"
proof -
  have one: "ATTEMPTS (settings 1) = Suc 0" by (simp add: settings_def)
  have pre: "to_wei_ether scripted 1 = Inr (10 ^ 18)" "time_time scripted w = 1700000000" for w
    by (simp_all add: scripted_def)
  have run: "snd (snd (swap_mon_to_usdc scripted (settings 1) alice 1 (world0\<lparr>q_status := [1]\<rparr>))) =
     [Attempt 0,
      Broadcast (SwapExactETHForTokens 0 [Some WMON_CONTRACT, Some USDC_CONTRACT] ''0xA11ce'' 1700000600),
      ReceiptAwaited (SwapExactETHForTokens 0 [Some WMON_CONTRACT, Some USDC_CONTRACT] ''0xA11ce'' 1700000600) (Some 1)]"
    unfolding swap_mon_to_usdc_def mon_to_usdc_attempt_def one
    by (simp add: pre world0_def run_crystal_send io_defs) (simp add: alice_def)
  show ?thesis
    unfolding run by simp
qed


text \<open>
  C3, amended. In every attempt of \<^verbatim>\<open>swap\<close> of instance.py, the amountOutMin of the
  broadcast swap call is \<^verbatim>\<open>int(expected_out * (1 - slippage / 100))\<close> for the
  \<^verbatim>\<open>expected_out\<close> quoted by \<^verbatim>\<open>getAmountsOut\<close> in that attempt. The two swap
  functions of crystal_swap.py request no quote and pass 0.
\<close>

theorem swap_min_amount_out:
  "slippage_protected (rnd E) slippage None
     (snd (snd (swap E cfg acct token_from token_to amount slippage w))) \<and>
   emits unquoted_zero (swap_mon_to_usdc E cfg acct amount) \<and>
   emits unquoted_zero (swap_usdc_to_mon E cfg acct amount)"
proof (intro conjI)
  obtain res w' t where run: "swap E cfg acct token_from token_to amount slippage w = (res, w', t)"
    by (cases "swap E cfg acct token_from token_to amount slippage w") auto
  from postD[OF swap_loop_post, of E cfg acct token_from token_to amount slippage "ATTEMPTS cfg" 0 w res w' t] run
  show "slippage_protected (rnd E) slippage None
     (snd (snd (swap E cfg acct token_from token_to amount slippage w)))"
    by (auto simp: swap_def)
  show "emits unquoted_zero (swap_mon_to_usdc E cfg acct amount)"
    by (rule emits_swap_mon_to_usdc) simp_all
  show "emits unquoted_zero (swap_usdc_to_mon E cfg acct amount)"
    by (rule emits_swap_usdc_to_mon) simp_all
qed

theorem swap_min_amount_out_witness:
  "broadcasts (snd (snd (swap scripted (settings 2) alice ''MON'' ''USDC'' (1 / 2) (1 / 2)
        (rich [1000000000000000000, 1000000000000000000] [1000, 1000] [0, 1])))) = [mon_call, mon_call] \<and>
   amount_out_min mon_call = Some 995 \<and>
   slippage_protected (rnd scripted) (1 / 2) None
     (snd (snd (swap scripted (settings 2) alice ''MON'' ''USDC'' (1 / 2) (1 / 2)
        (rich [1000000000000000000, 1000000000000000000] [1000, 1000] [0, 1]))))"
  using swap_min_amount_out[of scripted "1 / 2" "settings 2" alice "''MON''" "''USDC''" "1 / 2"
      "rich [1000000000000000000, 1000000000000000000] [1000, 1000] [0, 1]"]
  unfolding swap_def two
  by (simp add: run_swap_attempt_mon bindE_def try_except_def emit_def returnE_def mon_call_def)

section \<open>C5: receipts and the Outcome\<close>

lemma post_swap_mon_to_usdc:
  assumes "hashes_nonempty E"
  shows "post crystal_result (swap_mon_to_usdc E cfg acct amount)"
  unfolding swap_mon_to_usdc_def
  apply (rule post_weaken)
   apply (rule crystal_loop_post[OF post_mon_to_usdc_attempt[OF assms]] post_rules)+
  apply (auto simp: crystal_result_def split: sum.splits)
  done

lemma post_swap_usdc_to_mon:
  assumes "hashes_nonempty E"
  shows "post crystal_result (swap_usdc_to_mon E cfg acct amount)"
  unfolding swap_usdc_to_mon_def
  apply (rule post_weaken)
   apply (rule crystal_loop_post[OF post_usdc_to_mon_attempt[OF assms]] post_rules)+
  apply (auto simp: crystal_result_def split: sum.splits)
  done

text \<open>
  C5, as stated, fails on instance.py: a receipt with status 0 sends \<^verbatim>\<open>swap\<close> to
  its next attempt, and when that attempt's receipt has status 1 the final Outcome
  is a success.
\<close>

theorem retry_after_revert_succeeds:
  "swap scripted (settings 2) alice ''MON'' ''USDC'' (1 / 2) (1 / 2)
     (rich [1000000000000000000, 1000000000000000000] [1000, 1000] [0, 1]) =
   (Inr mon_success, rich [] [] [],
    [Attempt 0, BalanceQuery (Inr 1000000000000000000), Quoted [500000000000000000, 1000],
     Broadcast mon_call, ReceiptAwaited mon_call (Some 0),
     Attempt 1, BalanceQuery (Inr 1000000000000000000), Quoted [500000000000000000, 1000],
     Broadcast mon_call, ReceiptAwaited mon_call (Some 1)]) \<and>
   success mon_success"
  unfolding swap_def two
  by (simp add: run_swap_attempt_mon bindE_def try_except_def emit_def returnE_def mon_success_def)

text \<open>
  C5, amended. An Outcome that \<^verbatim>\<open>swap\<close> of instance.py returns has its success flag
  set exactly when the receipt of one of the call's swap transactions has status
  1, and then its transaction identifier is "0x" followed by the hash; so receipts
  that all have another status end in a failure Outcome. \<^verbatim>\<open>swap\<close> returns an Outcome
  whenever the pause pair is ordered or at most one attempt is permitted;
  otherwise the ValueError of \<^verbatim>\<open>random.randint\<close> can leave it, and then no receipt
  had status 1. In crystal_swap.py at most one swap receipt with a status is
  awaited per call: status 1 gives a success whose identifier is the hash (not
  empty when the node's hashes are not), any other status a failure Outcome, and
  an exception leaves the call only when no swap receipt came back with a status.
\<close>

theorem outcome_follows_receipts:
  "(case swap E cfg acct token_from token_to amount slippage w of
      (Inr out, w', t) \<Rightarrow>
        (success out \<longleftrightarrow> 1 \<in> set (swap_receipts t)) \<and>
        (success out \<longrightarrow> (\<exists>h. tx_hash out = Some (''0x'' @ h)))
    | (Inl e, w', t) \<Rightarrow>
        1 \<notin> set (swap_receipts t) \<and> e = ValueError ''empty range for randrange()'' \<and>
        range_hi (PAUSE_BETWEEN_ATTEMPTS cfg) < range_lo (PAUSE_BETWEEN_ATTEMPTS cfg) \<and>
        1 < ATTEMPTS cfg) \<and>
   (range_lo (PAUSE_BETWEEN_ATTEMPTS cfg) \<le> range_hi (PAUSE_BETWEEN_ATTEMPTS cfg) \<or> ATTEMPTS cfg \<le> 1 \<longrightarrow>
      (\<exists>out w' t. swap E cfg acct token_from token_to amount slippage w = (Inr out, w', t))) \<and>
   (hashes_nonempty E \<longrightarrow>
      post crystal_result (swap_mon_to_usdc E cfg acct amount) \<and>
      post crystal_result (swap_usdc_to_mon E cfg acct amount))"
proof -
  obtain res w' t where run: "swap E cfg acct token_from token_to amount slippage w = (res, w', t)"
    by (cases "swap E cfg acct token_from token_to amount slippage w") auto
  from postD[OF swap_loop_post, of E cfg acct token_from token_to amount slippage "ATTEMPTS cfg" 0 w res w' t] run
  have "(case swap E cfg acct token_from token_to amount slippage w of
      (Inr out, w', t) \<Rightarrow>
        (success out \<longleftrightarrow> 1 \<in> set (swap_receipts t)) \<and>
        (success out \<longrightarrow> (\<exists>h. tx_hash out = Some (''0x'' @ h)))
    | (Inl e, w', t) \<Rightarrow>
        1 \<notin> set (swap_receipts t) \<and> e = ValueError ''empty range for randrange()'' \<and>
        range_hi (PAUSE_BETWEEN_ATTEMPTS cfg) < range_lo (PAUSE_BETWEEN_ATTEMPTS cfg) \<and>
        1 < ATTEMPTS cfg)"
    by (cases res) (auto simp: swap_def)
  moreover have "range_lo (PAUSE_BETWEEN_ATTEMPTS cfg) \<le> range_hi (PAUSE_BETWEEN_ATTEMPTS cfg) \<or> ATTEMPTS cfg \<le> 1 \<longrightarrow>
      (\<exists>out w' t. swap E cfg acct token_from token_to amount slippage w = (Inr out, w', t))"
    using swap_loop_returns[of cfg E acct token_from token_to amount slippage "ATTEMPTS cfg" 0 w res w' t] run
    by (auto simp: swap_def)
  ultimately show ?thesis
    using post_swap_mon_to_usdc[of E cfg acct amount] post_swap_usdc_to_mon[of E cfg acct amount]
    by blast
qed

lemma scripted_hashes: "hashes_nonempty scripted"
  by (simp add: hashes_nonempty_def scripted_def)

lemma run_swap_mon_to_usdc:
  "swap_mon_to_usdc scripted (settings 1) alice 1 (rich [] [] [s]) =
     (Inr (if s = 1 then \<lparr>success = True, tx_hash = Some ''ab12'', from_token = Some ''MON'',
                to_token = Some ''USDC'', amount_in = Some 1, expected_out = None,
                gas_used = None, error = None\<rparr> else failure ''Transaction reverted''),
      rich [] [] [],
      [Attempt 0,
       Broadcast (SwapExactETHForTokens 0 [Some WMON_CONTRACT, Some USDC_CONTRACT] ''0xA11ce'' 1700000600),
       ReceiptAwaited (SwapExactETHForTokens 0 [Some WMON_CONTRACT, Some USDC_CONTRACT] ''0xA11ce'' 1700000600)
         (Some s)])"
proof -
  have pre: "to_wei_ether scripted 1 = Inr 1000000000000000000" "time_time scripted w = 1700000000" for w
    by (simp_all add: scripted_def)
  show ?thesis
    unfolding swap_mon_to_usdc_def mon_to_usdc_attempt_def one
    by (simp add: pre rich_def run_crystal_send io_defs) (simp add: alice_def)
qed

theorem outcome_follows_receipts_witness:
  "hashes_nonempty scripted \<and>
   range_lo (PAUSE_BETWEEN_ATTEMPTS (settings 2)) \<le> range_hi (PAUSE_BETWEEN_ATTEMPTS (settings 2)) \<and>
   swap_receipts (snd (snd (swap scripted (settings 2) alice ''MON'' ''USDC'' (1 / 2) (1 / 2)
        (rich [1000000000000000000, 1000000000000000000] [1000, 1000] [0, 0])))) = [0, 0] \<and>
   (\<exists>out w' t. swap scripted (settings 2) alice ''MON'' ''USDC'' (1 / 2) (1 / 2)
        (rich [1000000000000000000, 1000000000000000000] [1000, 1000] [0, 0]) = (Inr out, w', t) \<and>
      \<not> success out) \<and>
   crystal_result (fst (swap_mon_to_usdc scripted (settings 1) alice 1 (rich [] [] [1])))
     (snd (snd (swap_mon_to_usdc scripted (settings 1) alice 1 (rich [] [] [1])))) \<and>
   fst (swap_mon_to_usdc scripted (settings 1) alice 1 (rich [] [] [1])) =
     Inr \<lparr>success = True, tx_hash = Some ''ab12'', from_token = Some ''MON'',
          to_token = Some ''USDC'', amount_in = Some 1, expected_out = None,
          gas_used = None, error = None\<rparr> \<and>
   crystal_result (fst (swap_mon_to_usdc scripted (settings 1) alice 1 (rich [] [] [0])))
     (snd (snd (swap_mon_to_usdc scripted (settings 1) alice 1 (rich [] [] [0])))) \<and>
   fst (swap_mon_to_usdc scripted (settings 1) alice 1 (rich [] [] [0])) = Inr (failure ''Transaction reverted'')"
proof -
  have cfg: "range_lo (PAUSE_BETWEEN_ATTEMPTS (settings 2)) \<le> range_hi (PAUSE_BETWEEN_ATTEMPTS (settings 2))"
    by (simp add: settings_def)
  have inst: "swap_receipts (snd (snd (swap scripted (settings 2) alice ''MON'' ''USDC'' (1 / 2) (1 / 2)
        (rich [1000000000000000000, 1000000000000000000] [1000, 1000] [0, 0])))) = [0, 0] \<and>
   (\<exists>out w' t. swap scripted (settings 2) alice ''MON'' ''USDC'' (1 / 2) (1 / 2)
        (rich [1000000000000000000, 1000000000000000000] [1000, 1000] [0, 0]) = (Inr out, w', t) \<and>
      \<not> success out)"
    using outcome_follows_receipts[where E = scripted and cfg = "settings 2" and acct = alice
      and token_from = "''MON''" and token_to = "''USDC''" and amount = "1 / 2" and slippage = "1 / 2"
      and w = "rich [1000000000000000000, 1000000000000000000] [1000, 1000] [0, 0]"]
    unfolding swap_def two
    by (simp add: run_swap_attempt_mon bindE_def try_except_def emit_def returnE_def mon_call_def)
  have post1: "post crystal_result (swap_mon_to_usdc scripted (settings 1) alice 1)"
    using outcome_follows_receipts[where E = scripted and cfg = "settings 1" and acct = alice
      and amount = 1] scripted_hashes by blast
  have c1: "crystal_result (fst (swap_mon_to_usdc scripted (settings 1) alice 1 (rich [] [] [s])))
     (snd (snd (swap_mon_to_usdc scripted (settings 1) alice 1 (rich [] [] [s]))))" for s
    using postD[OF post1, of "rich [] [] [s]"]
    by (cases "swap_mon_to_usdc scripted (settings 1) alice 1 (rich [] [] [s])") simp
  show ?thesis
    using cfg inst c1[of 1] c1[of 0] scripted_hashes
    by (simp add: run_swap_mon_to_usdc del: One_nat_def)
qed

section \<open>C7: the backoff between attempts\<close>

text \<open>
  C7, as stated, fails on instance.py: after a receipt with status 0 the loop
  takes the \<^verbatim>\<open>continue\<close> and starts the next attempt at once. In the run below the
  second attempt follows the reverted receipt with no sleep in between. (In
  crystal_swap.py a reverted receipt ends the call.)
\<close>

theorem revert_retried_without_sleep:
  "swap scripted (settings 2) alice ''MON'' ''USDC'' (1 / 2) (1 / 2)
     (rich [1000000000000000000, 1000000000000000000] [1000, 1000] [0, 0]) =
   (Inr (failure ''Max retry attempts reached''), rich [] [] [],
    [Attempt 0, BalanceQuery (Inr 1000000000000000000), Quoted [500000000000000000, 1000],
     Broadcast mon_call, ReceiptAwaited mon_call (Some 0),
     Attempt 1, BalanceQuery (Inr 1000000000000000000), Quoted [500000000000000000, 1000],
     Broadcast mon_call, ReceiptAwaited mon_call (Some 0)])"
  unfolding swap_def two
  by (simp add: run_swap_attempt_mon bindE_def try_except_def emit_def returnE_def)

text \<open>
  C7, amended. When an attempt that is not the last permitted one
  (\<^verbatim>\<open>retry < ATTEMPTS - 1\<close>) fails by raising an exception, the loop sleeps a
  duration drawn by \<^verbatim>\<open>random.randint\<close> from the configured pause range (a pair
  whose first component is at most its second), and only then runs the remaining
  attempts. This holds for the retry loop of \<^verbatim>\<open>swap\<close> and for the retry loop of the
  two swap functions of crystal_swap.py.
\<close>

theorem backoff_after_exception:
  "(swap_attempt E acct token_from token_to amount slippage w = (Inl e, w1, t1) \<and>
      int retry < int (ATTEMPTS cfg) - 1 \<and>
      range_lo (PAUSE_BETWEEN_ATTEMPTS cfg) \<le> range_hi (PAUSE_BETWEEN_ATTEMPTS cfg) \<longrightarrow>
      (\<exists>d wn res w2 t2.
         range_lo (PAUSE_BETWEEN_ATTEMPTS cfg) \<le> d \<and> d \<le> range_hi (PAUSE_BETWEEN_ATTEMPTS cfg) \<and>
         swap_loop E cfg acct token_from token_to amount slippage n (Suc retry) wn = (res, w2, t2) \<and>
         swap_loop E cfg acct token_from token_to amount slippage (Suc n) retry w =
           (res, w2, Attempt retry # t1 @ Slept d # t2))) \<and>
   (body w = (Inl e, w1, t1) \<and> int retry < int (ATTEMPTS cfg) - 1 \<and>
      range_lo (PAUSE_BETWEEN_ATTEMPTS cfg) \<le> range_hi (PAUSE_BETWEEN_ATTEMPTS cfg) \<longrightarrow>
      (\<exists>d wn res w2 t2.
         range_lo (PAUSE_BETWEEN_ATTEMPTS cfg) \<le> d \<and> d \<le> range_hi (PAUSE_BETWEEN_ATTEMPTS cfg) \<and>
         crystal_loop E cfg body n (Suc retry) wn = (res, w2, t2) \<and>
         crystal_loop E cfg body (Suc n) retry w = (res, w2, Attempt retry # t1 @ Slept d # t2)))"
proof -
  let ?lo = "range_lo (PAUSE_BETWEEN_ATTEMPTS cfg)" and ?hi = "range_hi (PAUSE_BETWEEN_ATTEMPTS cfg)"
  obtain k wr where bits: "random_bits E w1 = (k, wr)"
    by (cases "random_bits E w1") auto
  define d where "d = ?lo + int (k mod nat (?hi - ?lo + 1))"
  have d_lo: "?lo \<le> d" by (simp add: d_def)
  have d_hi: "d \<le> ?hi" if le: "?lo \<le> ?hi"
    using le pos_mod_bound[of "?hi - ?lo + 1" "int k"] by (simp add: d_def zmod_int)
  have draw: "randint E ?lo ?hi w1 = (Inr d, wr, [])" if le: "?lo \<le> ?hi"
    using le by (simp add: randint_def bits d_def)
  show ?thesis
  proof (intro conjI impI)
    assume a: "swap_attempt E acct token_from token_to amount slippage w = (Inl e, w1, t1) \<and>
      int retry < int (ATTEMPTS cfg) - 1 \<and> ?lo \<le> ?hi"
    then have le: "?lo \<le> ?hi" by simp
    obtain res w2 t2 where rest:
      "swap_loop E cfg acct token_from token_to amount slippage n (Suc retry) (asyncio_sleep E d wr) = (res, w2, t2)"
      by (cases "swap_loop E cfg acct token_from token_to amount slippage n (Suc retry) (asyncio_sleep E d wr)") auto
    have "swap_loop E cfg acct token_from token_to amount slippage (Suc n) retry w =
           (res, w2, Attempt retry # t1 @ Slept d # t2)"
      using a by (simp add: bindE_def try_except_def emit_def returnE_def sleep_def draw[OF le] rest)
    with rest d_lo d_hi[OF le] show "\<exists>d wn res w2 t2.
         ?lo \<le> d \<and> d \<le> ?hi \<and>
         swap_loop E cfg acct token_from token_to amount slippage n (Suc retry) wn = (res, w2, t2) \<and>
         swap_loop E cfg acct token_from token_to amount slippage (Suc n) retry w =
           (res, w2, Attempt retry # t1 @ Slept d # t2)"
      by blast
  next
    assume a: "body w = (Inl e, w1, t1) \<and> int retry < int (ATTEMPTS cfg) - 1 \<and> ?lo \<le> ?hi"
    then have le: "?lo \<le> ?hi" by simp
    obtain res w2 t2 where rest:
      "crystal_loop E cfg body n (Suc retry) (asyncio_sleep E d wr) = (res, w2, t2)"
      by (cases "crystal_loop E cfg body n (Suc retry) (asyncio_sleep E d wr)") auto
    have "crystal_loop E cfg body (Suc n) retry w = (res, w2, Attempt retry # t1 @ Slept d # t2)"
      using a by (simp add: bindE_def try_except_def emit_def returnE_def sleep_def draw[OF le] rest)
    with rest d_lo d_hi[OF le] show "\<exists>d wn res w2 t2.
         ?lo \<le> d \<and> d \<le> ?hi \<and>
         crystal_loop E cfg body n (Suc retry) wn = (res, w2, t2) \<and>
         crystal_loop E cfg body (Suc n) retry w = (res, w2, Attempt retry # t1 @ Slept d # t2)"
      by blast
  qed
qed

lemma run_mon_to_usdc_no_receipt:
  "mon_to_usdc_attempt scripted alice 1 1000000000000000000 1700000600 (rich [] [] []) =
     (Inl (Raised ''unreachable''), rich [] [] [],
      [Broadcast (SwapExactETHForTokens 0 [Some WMON_CONTRACT, Some USDC_CONTRACT] ''0xA11ce'' 1700000600),
       ReceiptAwaited (SwapExactETHForTokens 0 [Some WMON_CONTRACT, Some USDC_CONTRACT] ''0xA11ce'' 1700000600) None])"
  by (simp add: mon_to_usdc_attempt_def crystal_send_def get_gas_params_def crystal_estimate_gas_def
      sign_and_send_def rich_def scripted_def alice_def io_defs)

theorem backoff_after_exception_witness:
  "(\<exists>d wn res w2 t2. 3 \<le> d \<and> d \<le> 10 \<and>
      swap_loop scripted (settings 2) alice ''MON'' ''USDC'' (1 / 2) (1 / 2) (Suc 0) (Suc 0) wn = (res, w2, t2) \<and>
      swap_loop scripted (settings 2) alice ''MON'' ''USDC'' (1 / 2) (1 / 2) (Suc (Suc 0)) 0 (rich [5] [] []) =
        (res, w2, Attempt 0 # [BalanceQuery (Inr 5)] @ Slept d # t2)) \<and>
   (\<exists>d wn res w2 t2. 3 \<le> d \<and> d \<le> 10 \<and>
      crystal_loop scripted (settings 2)
        (mon_to_usdc_attempt scripted alice 1 1000000000000000000 1700000600) (Suc 0) (Suc 0) wn = (res, w2, t2) \<and>
      crystal_loop scripted (settings 2)
        (mon_to_usdc_attempt scripted alice 1 1000000000000000000 1700000600) (Suc (Suc 0)) 0 (rich [] [] []) =
        (res, w2,
         Attempt 0 #
         [Broadcast (SwapExactETHForTokens 0 [Some WMON_CONTRACT, Some USDC_CONTRACT] ''0xA11ce'' 1700000600),
          ReceiptAwaited (SwapExactETHForTokens 0 [Some WMON_CONTRACT, Some USDC_CONTRACT] ''0xA11ce'' 1700000600) None]
         @ Slept d # t2))"
  using backoff_after_exception[where E = scripted and acct = alice and token_from = "''MON''"
      and token_to = "''USDC''" and amount = "1 / 2" and slippage = "1 / 2" and w = "rich [5] [] []"
      and e = "InsufficientBalance (5 / 10 ^ 18) ''MON'' (1 / 2)" and ?w1.0 = "rich [] [] []"
      and ?t1.0 = "[BalanceQuery (Inr 5)]" and retry = 0 and cfg = "settings 2" and n = "Suc 0"
      and body = "\<lambda>w. (Inl (InsufficientBalance (5 / 10 ^ 18) ''MON'' (1 / 2)), rich [] [] [], [BalanceQuery (Inr 5)])"]
    backoff_after_exception[where E = scripted and acct = alice and token_from = "''MON''"
      and token_to = "''USDC''" and amount = "1 / 2" and slippage = "1 / 2" and w = "rich [] [] []"
      and e = "Raised ''unreachable''" and ?w1.0 = "rich [] [] []"
      and ?t1.0 = "[Broadcast (SwapExactETHForTokens 0 [Some WMON_CONTRACT, Some USDC_CONTRACT] ''0xA11ce'' 1700000600),
          ReceiptAwaited (SwapExactETHForTokens 0 [Some WMON_CONTRACT, Some USDC_CONTRACT] ''0xA11ce'' 1700000600) None]"
      and retry = 0 and cfg = "settings 2" and n = "Suc 0"
      and body = "mon_to_usdc_attempt scripted alice 1 1000000000000000000 1700000600"]
  by (simp add: run_swap_attempt_poor run_mon_to_usdc_no_receipt settings_def)

section \<open>C9: the balance query never raises\<close>

lemma never_raises_returnE: "never_raises (returnE x)" by (simp add: never_raises_def returnE_def)
lemma never_raises_bindE: "never_raises m \<Longrightarrow> (\<And>x. never_raises (f x)) \<Longrightarrow> never_raises (bindE m f)"
  unfolding never_raises_def bindE_def
  apply (auto split: prod.splits sum.splits)
   apply (metis fst_conv sum.distinct(1))
  apply (metis fst_conv)
  done
lemma never_raises_try_except: "(\<And>e. never_raises (h e)) \<Longrightarrow> never_raises (try_except m h)"
  unfolding never_raises_def try_except_def
  by (auto split: prod.splits sum.splits) (metis fst_conv)
lemma never_raises_sleep: "never_raises (sleep E d)" by (simp add: never_raises_def sleep_def)

lemma never_raises_balance_loop: "never_raises (balance_loop E n wallet tok)"
proof (induction n arbitrary: wallet)
  case 0
  show ?case by (simp add: never_raises_returnE)
next
  case (Suc n)
  show ?case
    by (simp split: sum.split,
        intro conjI allI impI never_raises_bindE never_raises_try_except never_raises_sleep Suc)
qed

lemma query_balance_fails:
  assumes "\<And>a w. \<exists>e. fst (eth_get_balance E a w) = Inl e"
    and "\<And>a w. \<exists>e. fst (balanceOf E a w) = Inl e"
  shows "\<exists>e w1. query_balance E a tok w = (Inl e, w1, [BalanceQuery (Inl e)])"
proof (cases "native tok")
  case True
  obtain e where "fst (eth_get_balance E a w) = Inl e" using assms(1) by blast
  then show ?thesis
    using True by (cases "eth_get_balance E a w") (simp add: query_balance_def bindE_def rpc_def)
next
  case False
  obtain e where "fst (balanceOf E a w) = Inl e" using assms(2) by blast
  then show ?thesis
    using False by (cases "balanceOf E a w") (simp add: query_balance_def bindE_def rpc_def)
qed

lemma balance_loop_fails:
  assumes "\<And>a w. \<exists>e. fst (eth_get_balance E a w) = Inl e"
    and "\<And>a w. \<exists>e. fst (balanceOf E a w) = Inl e"
  shows "fst (balance_loop E n wallet tok w) = Inr 0 \<and>
         sleeps (snd (snd (balance_loop E n wallet tok w))) = replicate n 1"
proof (induction n arbitrary: wallet w)
  case 0
  show ?case by (simp add: returnE_def)
next
  case (Suc n)
  show ?case
  proof (cases "to_checksum_address E wallet")
    case (Inl e)
    obtain r w2 t2 where rest: "balance_loop E n wallet tok (asyncio_sleep E 1 w) = (r, w2, t2)"
      by (cases "balance_loop E n wallet tok (asyncio_sleep E 1 w)") auto
    with Suc[of wallet "asyncio_sleep E 1 w"] Inl show ?thesis
      by (simp add: bindE_def sleep_def)
  next
    case (Inr wallet')
    obtain e w1 where q: "query_balance E wallet' tok w = (Inl e, w1, [BalanceQuery (Inl e)])"
      using query_balance_fails[OF assms] by blast
    obtain r w2 t2 where rest: "balance_loop E n wallet' tok (asyncio_sleep E 1 w1) = (r, w2, t2)"
      by (cases "balance_loop E n wallet' tok (asyncio_sleep E 1 w1)") auto
    with Suc[of wallet' "asyncio_sleep E 1 w1"] Inr q show ?thesis
      by (simp add: bindE_def try_except_def sleep_def)
  qed
qed

lemma query_balance_zero:
  assumes "rnd E 0 = 0" "fst (eth_get_balance E a w) = Inr 0" "fst (balanceOf E a w) = Inr 0"
  shows "fst (query_balance E a tok w) = Inr 0"
  using assms
  by (cases "eth_get_balance E a w"; cases "balanceOf E a w")
     (simp add: query_balance_def bindE_def rpc_def liftE_def returnE_def from_wei_ether_def)

text \<open>
  C9. \<^verbatim>\<open>get_token_balance\<close> returns a value from every world, in both files. When
  every balance query raises, instance.py sleeps one second sixteen times and
  returns 0, and crystal_swap.py returns 0.0 after its one try. An account whose
  balance is zero gives the same result 0, so the caller cannot tell an
  unreachable endpoint from an empty account.
\<close>

theorem get_token_balance_never_raises:
  "never_raises (get_token_balance E wallet tok) \<and>
   never_raises (crystal_get_token_balance E acct tok) \<and>
   ((\<forall>a w. \<exists>e. fst (eth_get_balance E a w) = Inl e) \<and> (\<forall>a w. \<exists>e. fst (balanceOf E a w) = Inl e) \<longrightarrow>
      fst (get_token_balance E wallet tok w) = Inr 0 \<and>
      sleeps (snd (snd (get_token_balance E wallet tok w))) = replicate 16 1 \<and>
      fst (crystal_get_token_balance E acct tok w) = Inr 0) \<and>
   (rnd E 0 = 0 \<and> to_checksum_address E wallet = Inr wallet' \<and>
    fst (eth_get_balance E wallet' w) = Inr 0 \<and> fst (balanceOf E wallet' w) = Inr 0 \<longrightarrow>
      fst (get_token_balance E wallet tok w) = Inr 0) \<and>
   (rnd E 0 = 0 \<and> fst (eth_get_balance E (account_address acct) w) = Inr 0 \<and>
    fst (balanceOf E (account_address acct) w) = Inr 0 \<longrightarrow>
      fst (crystal_get_token_balance E acct tok w) = Inr 0)"
proof (intro conjI impI)
  show "never_raises (get_token_balance E wallet tok)"
    unfolding get_token_balance_def by (rule never_raises_balance_loop)
  show "never_raises (crystal_get_token_balance E acct tok)"
    unfolding crystal_get_token_balance_def
    by (rule never_raises_try_except) (rule never_raises_returnE)
next
  assume a: "(\<forall>a w. \<exists>e. fst (eth_get_balance E a w) = Inl e) \<and> (\<forall>a w. \<exists>e. fst (balanceOf E a w) = Inl e)"
  then have a1: "\<And>a w. \<exists>e. fst (eth_get_balance E a w) = Inl e" and a2: "\<And>a w. \<exists>e. fst (balanceOf E a w) = Inl e"
    by blast+
  from balance_loop_fails[OF a1 a2, of 16 wallet tok w]
  show "fst (get_token_balance E wallet tok w) = Inr 0"
    and "sleeps (snd (snd (get_token_balance E wallet tok w))) = replicate 16 1"
    by (simp_all add: get_token_balance_def)
  obtain e w1 where "query_balance E (account_address acct) tok w = (Inl e, w1, [BalanceQuery (Inl e)])"
    using query_balance_fails[OF a1 a2] by blast
  then show "fst (crystal_get_token_balance E acct tok w) = Inr 0"
    by (simp add: crystal_get_token_balance_def try_except_def returnE_def)
next
  assume z: "rnd E 0 = 0 \<and> to_checksum_address E wallet = Inr wallet' \<and>
    fst (eth_get_balance E wallet' w) = Inr 0 \<and> fst (balanceOf E wallet' w) = Inr 0"
  then have "fst (query_balance E wallet' tok w) = Inr 0"
    by (simp add: query_balance_zero)
  with z show "fst (get_token_balance E wallet tok w) = Inr 0"
    by (cases "query_balance E wallet' tok w") (simp add: get_token_balance_unfold try_except_def)
next
  assume z: "rnd E 0 = 0 \<and> fst (eth_get_balance E (account_address acct) w) = Inr 0 \<and>
    fst (balanceOf E (account_address acct) w) = Inr 0"
  then have "fst (query_balance E (account_address acct) tok w) = Inr 0"
    by (simp add: query_balance_zero)
  then show "fst (crystal_get_token_balance E acct tok w) = Inr 0"
    by (cases "query_balance E (account_address acct) tok w") (simp add: crystal_get_token_balance_def try_except_def)
qed

theorem get_token_balance_never_raises_witness:
  "fst (get_token_balance offline ''0xA11ce'' USDC world0) = Inr 0 \<and>
   sleeps (snd (snd (get_token_balance offline ''0xA11ce'' USDC world0))) = replicate 16 1 \<and>
   fst (crystal_get_token_balance offline alice USDC world0) = Inr 0 \<and>
   fst (get_token_balance scripted ''0xA11ce'' USDC (rich [0] [] [])) = Inr 0 \<and>
   fst (crystal_get_token_balance scripted alice USDC (rich [0] [] [])) = Inr 0"
  using get_token_balance_never_raises[of offline "''0xA11ce''" USDC alice world0 "''0xA11ce''"]
    get_token_balance_never_raises[of scripted "''0xA11ce''" USDC alice "rich [0] [] []" "''0xA11ce''"]
  by (simp add: offline_def scripted_def rich_def alice_def)

section \<open>C10: an approval grants the unlimited allowance\<close>

lemma approval_router: "list_all (approval_event ROUTER_CONTRACT) t \<Longrightarrow> list_all router_approvals t"
proof (induction t)
  case Nil
  show ?case by simp
next
  case (Cons ev t)
  then show ?case by (cases ev) simp_all
qed

lemma post_approve_token_router:
  "post (\<lambda>r t. list_all router_approvals t) (approve_token E acct tok amt ROUTER_CONTRACT)"
  by (rule post_emits, rule emits_approve_token) (simp_all add: MAX_UINT256_def)

lemma post_get_token_balance_router:
  "post (\<lambda>r t. list_all router_approvals t) (get_token_balance E a tok)"
  by (rule post_emits, rule emits_get_token_balance) simp_all

lemma attempt_router:
  "post (\<lambda>res t. list_all router_approvals t) (swap_attempt E acct token_from token_to amount slippage)"
  unfolding swap_attempt_def
  apply (rule post_weaken)
   apply (rule post_approve_token_router post_get_token_balance_router post_lookup_token
      post_get_gas_params post_estimate_gas post_sign_and_send post_rules)+
  apply (auto simp: quiet_def split: sum.splits option.splits if_splits)
  done

lemma swap_loop_router:
  "post (\<lambda>res t. list_all router_approvals t)
     (swap_loop E cfg acct token_from token_to amount slippage n retry)"
proof (induction n arbitrary: retry)
  case 0
  show ?case
    by (simp, rule post_weaken, rule post_returnE) simp
next
  case (Suc n)
  show ?case
    apply (simp only: swap_loop.simps)
    apply (rule post_weaken)
     apply (rule attempt_router Suc post_rules)+
    apply (auto split: sum.splits option.splits if_splits)
    done
qed

text \<open>
  C10. Whatever the amount of the pending swap, an approval that \<^verbatim>\<open>approve_token\<close>
  or \<^verbatim>\<open>approve_usdc\<close> broadcasts grants the spender 2**256 - 1, and every approval
  broadcast inside \<^verbatim>\<open>swap\<close> grants it to the router. Once the allowance reads
  2**256 - 1, no amount up to 2**256 - 1 makes either function issue another
  approval.
\<close>

theorem approval_is_unlimited:
  "emits (approval_event spender) (approve_token E acct tok amount_wei spender) \<and>
   emits (approval_event ROUTER_CONTRACT) (approve_usdc E acct amount_wei) \<and>
   emits router_approvals (swap E cfg acct token_from token_to amount slippage) \<and>
   (allowance E (address tok) (account_address acct) spender w = (Inr MAX_UINT256, w1) \<and>
    amount_wei \<le> MAX_UINT256 \<longrightarrow>
      fst (approve_token E acct tok amount_wei spender w) = Inr None \<and>
      broadcasts (snd (snd (approve_token E acct tok amount_wei spender w))) = []) \<and>
   (allowance E (Some USDC_CONTRACT) (account_address acct) ROUTER_CONTRACT w = (Inr MAX_UINT256, w1) \<and>
    amount_wei \<le> MAX_UINT256 \<longrightarrow>
      approve_usdc E acct amount_wei w = (Inr True, w1, [AllowanceRead MAX_UINT256]))"
proof (intro conjI impI)
  show "emits (approval_event spender) (approve_token E acct tok amount_wei spender)"
    by (rule emits_approve_token) (simp_all add: MAX_UINT256_def)
  show "emits (approval_event ROUTER_CONTRACT) (approve_usdc E acct amount_wei)"
    by (rule emits_approve_usdc) (simp_all add: MAX_UINT256_def)
  show "emits router_approvals (swap E cfg acct token_from token_to amount slippage)"
    unfolding swap_def by (rule emits_post) (rule swap_loop_router)
next
  assume a: "allowance E (address tok) (account_address acct) spender w = (Inr MAX_UINT256, w1) \<and>
    amount_wei \<le> MAX_UINT256"
  then show "fst (approve_token E acct tok amount_wei spender w) = Inr None"
    and "broadcasts (snd (snd (approve_token E acct tok amount_wei spender w))) = []"
    by (simp_all add: approve_token_def check_allowance_def bindE_def rpc_def returnE_def)
next
  assume a: "allowance E (Some USDC_CONTRACT) (account_address acct) ROUTER_CONTRACT w = (Inr MAX_UINT256, w1) \<and>
    amount_wei \<le> MAX_UINT256"
  then show "approve_usdc E acct amount_wei w = (Inr True, w1, [AllowanceRead MAX_UINT256])"
    by (simp add: approve_usdc_def try_except_def bindE_def rpc_def returnE_def)
qed


lemma run_approve_token:
  "approve_token scripted alice USDC amt ROUTER_CONTRACT (chain bs (a # al) qs (s # ss)) =
     (if amt \<le> a then (Inr None, chain bs al qs (s # ss), [AllowanceRead a])
      else (Inr (if s = 1 then Some ''0xab12'' else None), chain bs al qs ss,
            [AllowanceRead a, Broadcast (Approve ROUTER_CONTRACT MAX_UINT256),
             ReceiptAwaited (Approve ROUTER_CONTRACT MAX_UINT256) (Some s)]))"
  by (simp add: approve_token_def check_allowance_def get_gas_params_def estimate_gas_def
      sign_and_send_def USDC_def MAX_UINT256_def to_hex_def chain_def scripted_def alice_def io_defs)

theorem approval_is_unlimited_witness:
  "broadcasts (snd (snd (approve_token scripted alice USDC 500000 ROUTER_CONTRACT (chain [] [0] [] [1])))) =
     [Approve ROUTER_CONTRACT MAX_UINT256] \<and>
   fst (approve_token scripted alice USDC 500000 ROUTER_CONTRACT (chain [] [MAX_UINT256] [] [])) = Inr None \<and>
   broadcasts (snd (snd (approve_token scripted alice USDC 500000 ROUTER_CONTRACT (chain [] [MAX_UINT256] [] [])))) = [] \<and>
   approve_usdc scripted alice 500000 (chain [] [MAX_UINT256] [] []) =
     (Inr True, chain [] [] [] [], [AllowanceRead MAX_UINT256])"
proof -
  have al: "allowance scripted t (account_address alice) sp (chain [] [MAX_UINT256] [] []) =
      (Inr MAX_UINT256, chain [] [] [] [])" for t sp
    by (simp add: scripted_def chain_def)
  have le: "(500000::int) \<le> MAX_UINT256" by (simp add: MAX_UINT256_def)
  from approval_is_unlimited[of ROUTER_CONTRACT scripted alice USDC 500000 "settings 1" "''USDC''" "''MON''"
      "1 / 2" "1 / 2" "chain [] [MAX_UINT256] [] []" "chain [] [] [] []"] al le
  show ?thesis
    by (simp add: run_approve_token)
qed

section \<open>C6: the approval before a token swap\<close>

lemma run_swap_attempt_usdc:
  "swap_attempt scripted alice ''USDC'' ''MON'' (1 / 2) (1 / 2) (chain [1000000] [0] [1000] [0, 0]) =
     (Inr None, chain [] [] [] [],
      [BalanceQuery (Inr 1000000), Quoted [500000, 1000], AllowanceRead 0,
       Broadcast (Approve ROUTER_CONTRACT MAX_UINT256),
       ReceiptAwaited (Approve ROUTER_CONTRACT MAX_UINT256) (Some 0),
       Broadcast usdc_call, ReceiptAwaited usdc_call (Some 0)])"
  by (simp add: swap_attempt_def get_token_balance_unfold query_balance_def
      lookup_token_def AVAILABLE_TOKENS_def MON_def USDC_def approve_token_def check_allowance_def
      get_gas_params_def estimate_gas_def sign_and_send_def min_amount_out_def py_int_def
      MAX_UINT256_def to_hex_def chain_def usdc_call_def
      scripted_def alice_def io_defs WMON_CONTRACT_def USDC_CONTRACT_def ROUTER_CONTRACT_def)

text \<open>
  The sibling path: \<^verbatim>\<open>swap_usdc_to_mon\<close> of crystal_swap.py broadcasts its swap only
  after a sufficient allowance was read or an approval's receipt came back with
  status 1.
\<close>

lemma post_approve_usdc_shape:
  "post (\<lambda>r t.
      (\<exists>a. t = [AllowanceRead a] \<and> amt \<le> a \<and> r = Inr True) \<or>
      (\<exists>a. t = [AllowanceRead a, Broadcast (Approve ROUTER_CONTRACT (2 ^ 256 - 1)),
                 ReceiptAwaited (Approve ROUTER_CONTRACT (2 ^ 256 - 1)) (Some 1)] \<and> r = Inr True) \<or>
      (r = Inr False \<and> list_all aux_event t))
     (approve_usdc E acct amt)"
  unfolding approve_usdc_def
  apply (rule post_weaken)
   apply (rule post_crystal_estimate_gas sub_posts post_rules)+
  apply (auto simp: quiet_def split: sum.splits if_splits)
  done

lemma approved_aux:
  "list_all aux_event t \<Longrightarrow> list_all (\<lambda>ev. \<forall>a. ev \<noteq> AllowanceRead a) t \<Longrightarrow>
   list_all (\<lambda>ev. \<forall>cd st. ev \<noteq> ReceiptAwaited cd st) t \<Longrightarrow>
   approved_before_swap strict amt ok (t @ t') = approved_before_swap strict amt ok t'"
proof (induction t)
  case Nil
  show ?case by simp
next
  case (Cons ev t)
  then show ?case by (cases ev) auto
qed

lemma no_swap_broadcast_ok:
  "list_all aux_event t \<Longrightarrow> approved_before_swap strict amt ok t"
proof (induction t arbitrary: ok)
  case Nil
  show ?case by simp
next
  case (Cons ev t)
  then show ?case by (cases ev) auto
qed

lemma post_usdc_attempt_confirmed:
  "post (\<lambda>res t. attempts t = [] \<and> (\<forall>ok. approved_before_swap True amount_wei ok t))
     (usdc_to_mon_attempt E acct amount amount_wei deadline)"
  unfolding usdc_to_mon_attempt_def
  apply (rule post_weaken)
   apply (rule post_approve_usdc_shape post_crystal_send post_rules)+
  apply (auto simp: no_swap_broadcast_ok attempts_aux split: if_splits)
  done


lemma approved_append:
  "approved_before_swap strict amt ok t1 \<Longrightarrow> (\<And>ok'. approved_before_swap strict amt ok' t2) \<Longrightarrow>
   approved_before_swap strict amt ok (t1 @ t2)"
  by (induction strict amt ok t1 rule: approved_before_swap.induct) (simp_all split: if_splits)

lemma crystal_loop_confirmed:
  assumes body: "post (\<lambda>res t. attempts t = [] \<and> (\<forall>ok. approved_before_swap True amt ok t)) body"
  shows "post (\<lambda>res t. \<forall>ok. approved_before_swap True amt ok t) (crystal_loop E cfg body n k)"
proof (induction n arbitrary: k)
  case 0
  show ?case
    by (simp, rule post_weaken, rule post_returnE) simp
next
  case (Suc n)
  show ?case
    apply (simp only: crystal_loop.simps)
    apply (rule post_weaken)
     apply (rule body Suc post_rules)+
    apply (auto simp: approved_append split: sum.splits option.splits if_splits)
    done
qed

lemma swap_usdc_to_mon_confirmed:
  "post (\<lambda>res t. approved_before_swap True (py_int (rnd E (amount * 10 ^ 6))) False t)
     (swap_usdc_to_mon E cfg acct amount)"
  unfolding swap_usdc_to_mon_def
  apply (rule post_weaken)
   apply (rule crystal_loop_confirmed[OF post_usdc_attempt_confirmed] post_rules)+
  apply auto
  done

text \<open>
  \<^verbatim>\<open>swap\<close> of instance.py, for a token that is not native: one attempt broadcasts
  its swap only after a sufficient allowance was read or an approval's receipt was
  awaited, whatever its status.
\<close>

lemma post_approve_token_shape:
  "post (\<lambda>r t.
      (native tok \<and> t = [] \<and> r = Inr None) \<or>
      (\<not> native tok \<and>
        ((\<exists>a. t = [AllowanceRead a] \<and> amt \<le> a \<and> r = Inr None) \<or>
         (\<exists>a st x. t = [AllowanceRead a, Broadcast (Approve sp (2 ^ 256 - 1)),
                 ReceiptAwaited (Approve sp (2 ^ 256 - 1)) (Some st)] \<and> r = Inr x) \<or>
         ((\<exists>e. r = Inl e) \<and> list_all aux_event t))))
     (approve_token E acct tok amt sp)"
  unfolding approve_token_def check_allowance_def
  apply (rule post_weaken)
   apply (rule sub_posts post_rules)+
  apply (auto simp: quiet_def split: sum.splits if_splits)
  done

lemma post_get_token_balance_quiet:
  "post (\<lambda>r t. list_all (\<lambda>ev. (\<exists>r. ev = BalanceQuery r) \<or> (\<exists>d. ev = Slept d)) t)
     (get_token_balance E a tok)"
  by (rule post_emits, rule emits_get_token_balance) simp_all

lemma approved_quiet_prefix:
  "list_all (\<lambda>ev. (\<exists>r. ev = BalanceQuery r) \<or> (\<exists>d. ev = Slept d)) t \<Longrightarrow>
   approved_before_swap strict amt ok (t @ t') = approved_before_swap strict amt ok t'"
proof (induction t)
  case Nil
  show ?case by simp
next
  case (Cons ev t)
  then show ?case by (cases ev) auto
qed

lemma approved_quiet:
  "list_all (\<lambda>ev. (\<exists>r. ev = BalanceQuery r) \<or> (\<exists>d. ev = Slept d)) t \<Longrightarrow>
   approved_before_swap strict amt ok t"
  using approved_quiet_prefix[of t strict amt ok "[]"] by simp

lemma attempts_quiet:
  "list_all (\<lambda>ev. (\<exists>r. ev = BalanceQuery r) \<or> (\<exists>d. ev = Slept d)) t \<Longrightarrow> attempts t = []"
  by (induction t rule: attempts.induct) auto

lemma attempt_awaited:
  assumes "AVAILABLE_TOKENS token_from = Some tok" "\<not> native tok"
  shows "post (\<lambda>res t. attempts t = [] \<and>
            (\<forall>ok. approved_before_swap False (py_int (rnd E (amount * 10 ^ decimals tok))) ok t))
     (swap_attempt E acct token_from token_to amount slippage)"
  unfolding swap_attempt_def
  apply (rule post_weaken)
   apply (rule post_approve_token_shape post_get_token_balance_quiet post_lookup_token
      post_get_gas_params post_estimate_gas post_sign_and_send post_rules)+
  using assms
  apply (auto simp: quiet_def approved_quiet_prefix approved_quiet attempts_quiet no_swap_broadcast_ok attempts_aux
      approved_aux split: sum.splits option.splits if_splits)
  done

text \<open>
  C6. \<^verbatim>\<open>approve_token\<close> of instance.py awaits the receipt of the approval, logs
  "Approval transaction failed." and returns \<^verbatim>\<open>None\<close> when its status is not 1, but
  \<^verbatim>\<open>swap\<close> drops the result: in the run below the allowance is 0, the approval's
  receipt has status 0, and the swap transaction is broadcast all the same.
  (\<^verbatim>\<open>swap_usdc_to_mon\<close> of crystal_swap.py returns "Approval failed" there.)
\<close>

theorem swap_after_failed_approval:
  "swap scripted (settings 1) alice ''USDC'' ''MON'' (1 / 2) (1 / 2) (chain [1000000] [0] [1000] [0, 0]) =
     (Inr (failure ''Max retry attempts reached''), chain [] [] [] [],
      [Attempt 0, BalanceQuery (Inr 1000000), Quoted [500000, 1000], AllowanceRead 0,
       Broadcast (Approve ROUTER_CONTRACT MAX_UINT256),
       ReceiptAwaited (Approve ROUTER_CONTRACT MAX_UINT256) (Some 0),
       Broadcast usdc_call, ReceiptAwaited usdc_call (Some 0)])"
  unfolding swap_def one
  by (simp add: run_swap_attempt_usdc bindE_def try_except_def emit_def returnE_def)

section \<open>C8: the amount of a Swap Intent stays within the balance\<close>













section \<open>C4: both balances below their thresholds\<close>

lemma emits_crystal_get_token_balance:
  "(\<And>r. P (BalanceQuery r)) \<Longrightarrow> emits P (crystal_get_token_balance E acct tok)"
  unfolding crystal_get_token_balance_def
  by (intro emits_intros emits_query_balance) simp_all

lemma emits_refresh_balances:
  "(\<And>r. P (BalanceQuery r)) \<Longrightarrow> P (Slept 1) \<Longrightarrow> emits P (refresh_balances E acct bal)"
  unfolding refresh_balances_def
  by (intro emits_intros emits_get_token_balance) simp_all

lemma crystal_balance_quiet:
  assumes "crystal_get_token_balance E acct tok w = (r, w', t)"
  shows "broadcasts t = []"
proof -
  have "emits (\<lambda>ev. (\<exists>r. ev = BalanceQuery r) \<or> (\<exists>d. ev = Slept d)) (crystal_get_token_balance E acct tok)"
    by (rule emits_crystal_get_token_balance) simp
  from emitsD[OF this assms] show ?thesis
    by (rule broadcasts_aux_free)
qed

lemma refresh_balances_quiet:
  assumes "refresh_balances E acct bal w = (r, w', t)"
  shows "broadcasts t = []"
proof -
  have "emits (\<lambda>ev. (\<exists>r. ev = BalanceQuery r) \<or> (\<exists>d. ev = Slept d)) (refresh_balances E acct bal)"
    by (rule emits_refresh_balances) simp_all
  from emitsD[OF this assms] show ?thesis
    by (rule broadcasts_aux_free)
qed

lemma run_refresh_zero:
  "refresh_balances scripted alice bal (rich (0 # 0 # bs) qs ss) =
     (Inr (bal(''MON'' \<mapsto> 0, ''USDC'' \<mapsto> 0)), rich bs qs ss,
      [BalanceQuery (Inr 0), BalanceQuery (Inr 0)])"
  by (simp add: refresh_balances_def get_token_balance_unfold query_balance_def MON_def USDC_def
      from_wei_ether_def MAX_UINT256_def rich_def scripted_def alice_def io_defs)

lemma run_refresh_funded:
  "refresh_balances scripted alice bal (rich (1000000000000000000 # 0 # bs) qs ss) =
     (Inr (bal(''MON'' \<mapsto> 1, ''USDC'' \<mapsto> 0)), rich bs qs ss,
      [BalanceQuery (Inr 1000000000000000000), BalanceQuery (Inr 0)])"
  by (simp add: refresh_balances_def get_token_balance_unfold query_balance_def MON_def USDC_def
      from_wei_ether_def MAX_UINT256_def rich_def scripted_def alice_def io_defs)

lemma run_select_zero:
  "d ''MON'' = Some 0 \<Longrightarrow> d ''USDC'' = Some 0 \<Longrightarrow>
   select_swap_pair scripted (settings n) d w = (Inr (None, None, 0), w, [])"
  by (simp add: select_swap_pair_def dict_get_def scripted_def io_defs)

lemma run_select_funded:
  "d ''MON'' = Some 1 \<Longrightarrow> d ''USDC'' = Some 0 \<Longrightarrow>
   select_swap_pair scripted (settings n) d (rich bs qs ss) =
     (Inr (Some ''MON'', Some ''USDC'', 1 / 10), rich bs qs ss, [])"
  by (simp add: select_swap_pair_def dict_get_def percent_of_balance_def settings_def rich_def
      scripted_def io_defs)

lemma run_swap_attempt_tenth:
  "swap_attempt scripted alice ''MON'' ''USDC'' (1 / 10) (1 / 2)
       (rich (1000000000000000000 # bs) (1000 # qs) (1 # ss)) =
     (Inr (Some \<lparr>success = True, tx_hash = Some ''0xab12'', from_token = Some ''MON'',
                to_token = Some ''USDC'', amount_in = Some (1 / 10), expected_out = Some (1 / 1000),
                gas_used = Some 90000, error = None\<rparr>), rich bs qs ss,
      [BalanceQuery (Inr 1000000000000000000), Quoted [100000000000000000, 1000],
       Broadcast mon_call, ReceiptAwaited mon_call (Some 1)])"
  by (simp add: swap_attempt_def get_token_balance_unfold query_balance_def
      lookup_token_def AVAILABLE_TOKENS_def MON_def USDC_def
      get_gas_params_def estimate_gas_def sign_and_send_def min_amount_out_def py_int_def
      from_wei_ether_def MAX_UINT256_def to_hex_def rich_def mon_call_def
      scripted_def alice_def io_defs WMON_CONTRACT_def USDC_CONTRACT_def ROUTER_CONTRACT_def)

text \<open>
  C4, as stated, fails on instance.py: there \<^verbatim>\<open>_select_swap_pair\<close> returns no pair
  and \<^verbatim>\<open>execute\<close> takes \<^verbatim>\<open>continue\<close>, so the loop goes on. In the run below the
  first iteration finds both balances at 0, the second finds 1 MON and swaps.
\<close>

theorem skipped_iteration_then_swap:
  "execute scripted (settings 1) alice
     (rich [0, 0, 0, 0, 1000000000000000000, 0, 1000000000000000000] [1000] [1]) =
   (Inr (), rich [] [] [],
    [BalanceQuery (Inr 0), BalanceQuery (Inr 0),
     BalanceQuery (Inr 0), BalanceQuery (Inr 0),
     BalanceQuery (Inr 1000000000000000000), BalanceQuery (Inr 0),
     Attempt 0, BalanceQuery (Inr 1000000000000000000), Quoted [100000000000000000, 1000],
     Broadcast mon_call, ReceiptAwaited mon_call (Some 1)])"
proof -
  have cfg: "CRYSTAL_SWAP_ENABLED (settings n) = Some True"
    "range_lo (NUMBER_OF_SWAPS (settings n)) = 2" "range_hi (NUMBER_OF_SWAPS (settings n)) = 2"
    "range_lo (RANDOM_PAUSE_BETWEEN_ACTIONS (settings n)) = 5" "ATTEMPTS (settings n) = n" for n
    by (simp_all add: settings_def)
  have draw: "randint scripted 2 2 (rich bs qs ss) = (Inr 2, rich bs qs ss, [])" for bs qs ss
    by (simp add: randint_def scripted_def rich_def)
  have r: "rnd scripted = (\<lambda>x. x)" by (simp add: scripted_def)
  show ?thesis
    unfolding execute_def
    by (simp add: cfg bindE_def run_refresh_zero draw numeral_2_eq_2 run_select_zero run_refresh_funded
        run_select_funded r swap_def run_swap_attempt_tenth try_except_def emit_def returnE_def)
qed

text \<open>
  C4, amended. When an iteration of \<^verbatim>\<open>execute\<close> of crystal_swap.py reads a MON
  balance below 0.001 and a USDC balance below 0.01, the loop ends there
  (\<^verbatim>\<open>break\<close>): nothing is issued after the two balance queries, and no swap. In
  \<^verbatim>\<open>execute\<close> of instance.py such an iteration issues its balance queries only, no
  swap and no pause, and the loop goes on with its next iteration.
\<close>

theorem low_balances_end_or_skip:
  "(crystal_get_token_balance E acct MON w = (Inr b1, w1, t1) \<and>
    crystal_get_token_balance E acct USDC w1 = (Inr b2, w2, t2) \<and>
    b1 < rnd E (1 / 1000) \<and> b2 < rnd E (1 / 100) \<longrightarrow>
      crystal_execute_loop E cfg acct (Suc n) swap_num num_swaps w = (Inr (), w2, t1 @ t2) \<and>
      broadcasts (t1 @ t2) = []) \<and>
   (refresh_balances E acct token_balances w = (Inr balances, w', t) \<and>
    balances ''MON'' = Some b1 \<and> balances ''USDC'' = Some b2 \<and>
    b1 < rnd E (1 / 1000) \<and> b2 < rnd E (1 / 100) \<longrightarrow>
      broadcasts t = [] \<and>
      execute_loop E cfg acct (Suc n) swap_num num_swaps token_balances w =
        (case execute_loop E cfg acct n (swap_num + 1) num_swaps balances w' of
           (r, w'', t') \<Rightarrow> (r, w'', t @ t')))"
proof (intro conjI impI)
  assume a: "crystal_get_token_balance E acct MON w = (Inr b1, w1, t1) \<and>
    crystal_get_token_balance E acct USDC w1 = (Inr b2, w2, t2) \<and>
    b1 < rnd E (1 / 1000) \<and> b2 < rnd E (1 / 100)"
  then show "crystal_execute_loop E cfg acct (Suc n) swap_num num_swaps w = (Inr (), w2, t1 @ t2)"
    by (simp add: bindE_def returnE_def)
  from a show "broadcasts (t1 @ t2) = []"
    by (simp add: crystal_balance_quiet[of E acct MON w "Inr b1" w1 t1]
        crystal_balance_quiet[of E acct USDC w1 "Inr b2" w2 t2])
next
  assume a: "refresh_balances E acct token_balances w = (Inr balances, w', t) \<and>
    balances ''MON'' = Some b1 \<and> balances ''USDC'' = Some b2 \<and>
    b1 < rnd E (1 / 1000) \<and> b2 < rnd E (1 / 100)"
  from a show "broadcasts t = []"
    by (simp add: refresh_balances_quiet[of E acct token_balances w "Inr balances" w' t])
  have sel: "select_swap_pair E cfg balances w' = (Inr (None, None, 0), w', [])"
    using a by (simp add: select_swap_pair_def dict_get_def bindE_def returnE_def)
  show "execute_loop E cfg acct (Suc n) swap_num num_swaps token_balances w =
        (case execute_loop E cfg acct n (swap_num + 1) num_swaps balances w' of
           (r, w'', t') \<Rightarrow> (r, w'', t @ t'))"
    using a sel by (simp add: bindE_def split: prod.splits)
qed

lemma run_crystal_balance_mon:
  "crystal_get_token_balance scripted alice MON (rich (500000000000000 # bs) qs ss) =
     (Inr (1 / 2000), rich bs qs ss, [BalanceQuery (Inr 500000000000000)])"
  by (simp add: crystal_get_token_balance_def query_balance_def MON_def from_wei_ether_def
      MAX_UINT256_def rich_def scripted_def alice_def io_defs)

lemma run_crystal_balance_usdc:
  "crystal_get_token_balance scripted alice USDC (rich (5000 # bs) qs ss) =
     (Inr (1 / 200), rich bs qs ss, [BalanceQuery (Inr 5000)])"
  by (simp add: crystal_get_token_balance_def query_balance_def USDC_def
      rich_def scripted_def alice_def io_defs)

lemma run_refresh_low:
  "refresh_balances scripted alice bal (rich (500000000000000 # 5000 # bs) qs ss) =
     (Inr (bal(''MON'' \<mapsto> 1 / 2000, ''USDC'' \<mapsto> 1 / 200)), rich bs qs ss,
      [BalanceQuery (Inr 500000000000000), BalanceQuery (Inr 5000)])"
  by (simp add: refresh_balances_def get_token_balance_unfold query_balance_def MON_def USDC_def
      from_wei_ether_def MAX_UINT256_def rich_def scripted_def alice_def io_defs)

theorem low_balances_end_or_skip_witness:
  "crystal_execute_loop scripted (settings 1) alice (Suc (Suc 0)) 1 2
       (rich [500000000000000, 5000] [] []) =
     (Inr (), rich [] [] [], [BalanceQuery (Inr 500000000000000), BalanceQuery (Inr 5000)]) \<and>
   execute_loop scripted (settings 1) alice (Suc 0) 2 2 Map.empty (rich [500000000000000, 5000] [] []) =
     (Inr (), rich [] [] [], [BalanceQuery (Inr 500000000000000), BalanceQuery (Inr 5000)])"
proof -
  have r: "rnd scripted = (\<lambda>x. x)" by (simp add: scripted_def)
  note th = low_balances_end_or_skip[where E = scripted and acct = alice
      and w = "rich [500000000000000, 5000] [] []" and ?b1.0 = "1 / 2000"
      and ?w1.0 = "rich [5000] [] []" and ?t1.0 = "[BalanceQuery (Inr 500000000000000)]"
      and ?b2.0 = "1 / 200" and ?w2.0 = "rich [] [] []" and ?t2.0 = "[BalanceQuery (Inr 5000)]"
      and cfg = "settings 1" and n = "Suc 0" and swap_num = 1 and num_swaps = 2]
  have crystal: "crystal_execute_loop scripted (settings 1) alice (Suc (Suc 0)) 1 2
       (rich [500000000000000, 5000] [] []) =
     (Inr (), rich [] [] [], [BalanceQuery (Inr 500000000000000), BalanceQuery (Inr 5000)])"
    using th[THEN conjunct1, THEN mp, THEN conjunct1]
    by (simp add: run_crystal_balance_mon run_crystal_balance_usdc r del: crystal_execute_loop.simps)
  note th2 = low_balances_end_or_skip[where E = scripted and acct = alice
      and w = "rich [500000000000000, 5000] [] []" and ?b1.0 = "1 / 2000" and ?b2.0 = "1 / 200"
      and cfg = "settings 1" and n = 0 and swap_num = 2 and num_swaps = 2
      and token_balances = Map.empty
      and balances = "[''MON'' \<mapsto> 1 / 2000, ''USDC'' \<mapsto> 1 / 200]"
      and w' = "rich [] [] []"
      and t = "[BalanceQuery (Inr 500000000000000), BalanceQuery (Inr 5000)]"]
  have skip: "execute_loop scripted (settings 1) alice (Suc 0) 2 2 Map.empty
       (rich [500000000000000, 5000] [] []) =
     (case execute_loop scripted (settings 1) alice 0 (2 + 1) 2
             [''MON'' \<mapsto> 1 / 2000, ''USDC'' \<mapsto> 1 / 200] (rich [] [] []) of
        (r, w'', t') \<Rightarrow>
          (r, w'', [BalanceQuery (Inr 500000000000000), BalanceQuery (Inr 5000)] @ t'))"
    using th2[THEN conjunct2, THEN mp, THEN conjunct2]
    by (simp add: run_refresh_low r del: execute_loop.simps)
  show ?thesis
    unfolding skip crystal by (simp add: returnE_def)
qed

end
